theory Spec2Isabelle
  imports Complex_Main
begin

section \<open>JavaScript strings\<close>

text \<open>
  Strings are byte strings; the model covers ASCII text. JavaScript's
  \<^verbatim>\<open>trim\<close> and the regular expression class \<^verbatim>\<open>\s\<close> also match some
  characters beyond ASCII (no-break space, line separators); they are outside this
  model.
\<close>

definition newline :: char where
  "newline = CHR 0x0A"

definition is_space :: "char \<Rightarrow> bool" where
  "is_space c = (c = CHR '' '' \<or> c = CHR 0x09 \<or> c = CHR 0x0A \<or> c = CHR 0x0B
                 \<or> c = CHR 0x0C \<or> c = CHR 0x0D)"

text \<open>\<^verbatim>\<open>s.trim()\<close>\<close>

definition trim :: "string \<Rightarrow> string" where
  "trim s = rev (dropWhile is_space (rev (dropWhile is_space s)))"

text \<open>\<^verbatim>\<open>s.replace(/\*\*/g, '')\<close>: every non-overlapping pair, from the left.\<close>

fun remove_bold_markers :: "string \<Rightarrow> string" where
  "remove_bold_markers (a # b # cs) =
     (if a = CHR ''*'' \<and> b = CHR ''*'' then remove_bold_markers cs
      else a # remove_bold_markers (b # cs))"
| "remove_bold_markers cs = cs"

text \<open>\<^verbatim>\<open>s.replace(/\*/g, '')\<close>\<close>

definition remove_asterisks :: "string \<Rightarrow> string" where
  "remove_asterisks s = filter (\<lambda>c. c \<noteq> CHR ''*'') s"

text \<open>\<^verbatim>\<open>s.split('\n')\<close>: never empty; the empty string gives one empty line.\<close>

fun split_lines :: "string \<Rightarrow> string list" where
  "split_lines [] = [[]]"
| "split_lines (c # cs) =
     (if c = newline then [] # split_lines cs
      else (case split_lines cs of [] \<Rightarrow> [[c]] | l # ls \<Rightarrow> (c # l) # ls))"

text \<open>\<^verbatim>\<open>s.replace(/\s+/g, '_')\<close>: each maximal run of white space becomes one underscore.\<close>

function replace_spaces :: "string \<Rightarrow> string" where
  "replace_spaces [] = []"
| "replace_spaces (c # cs) =
     (if is_space c then CHR ''_'' # replace_spaces (dropWhile is_space cs)
      else c # replace_spaces cs)"
  by pat_completeness auto
termination
  by (relation "measure length") (auto simp: length_dropWhile_le less_Suc_eq_le)

text \<open>\<^verbatim>\<open>a || b\<close> on a possibly missing string: the empty string is falsy too.\<close>

definition truthy :: "string option \<Rightarrow> bool" where
  "truthy v = (case v of None \<Rightarrow> False | Some s \<Rightarrow> s \<noteq> [])"

definition or_else :: "string option \<Rightarrow> string \<Rightarrow> string" where
  "or_else v d = (case v of None \<Rightarrow> d | Some s \<Rightarrow> if s = [] then d else s)"

section \<open>The jsPDF document\<close>

text \<open>
  Lengths are millimetres. JavaScript numbers are modelled as exact rationals, so
  rounding of floating point is not part of the model.
\<close>

datatype font_style = normal | bold | italic

type_synonym rgb = "nat \<times> nat \<times> nat"

record canvas =
  width :: nat
  height :: nat

datatype draw =
    Text (content: string) (at_x: rat) (at_y: rat) (font_size: rat)
         (style: font_style) (colour: rgb) (centred: bool)
  | Img (bitmap: canvas) (at_x: rat) (at_y: rat) (drawn_width: rat) (drawn_height: rat)
  | Rect rat rat rat rat
  | Line rat rat rat rat
  | AddPage

text \<open>
  The document is the sequence of drawing calls in the order they were made, with the
  text state (size, style, colour) each \<^verbatim>\<open>pdf.text\<close> call found. Fill colour, draw
  colour and line width do not reach any text or image and are left out.
  \<open>saved\<close> is the file name \<^verbatim>\<open>pdf.save\<close> was called with.
\<close>

record pdf =
  ops :: "draw list"
  fontSize :: rat
  fontStyle :: font_style
  textColor :: rgb
  saved :: "string option"

definition setFontSize :: "rat \<Rightarrow> 'a pdf_scheme \<Rightarrow> 'a pdf_scheme" where
  "setFontSize n p = p\<lparr>fontSize := n\<rparr>"

definition setFont :: "font_style \<Rightarrow> 'a pdf_scheme \<Rightarrow> 'a pdf_scheme" where
  "setFont st p = p\<lparr>fontStyle := st\<rparr>"

definition setTextColor :: "nat \<Rightarrow> nat \<Rightarrow> nat \<Rightarrow> 'a pdf_scheme \<Rightarrow> 'a pdf_scheme" where
  "setTextColor r g b p = p\<lparr>textColor := (r, g, b)\<rparr>"

definition emit :: "draw \<Rightarrow> 'a pdf_scheme \<Rightarrow> 'a pdf_scheme" where
  "emit d p = p\<lparr>ops := ops p @ [d]\<rparr>"

definition text_at :: "string \<Rightarrow> rat \<Rightarrow> rat \<Rightarrow> bool \<Rightarrow> 'a pdf_scheme \<Rightarrow> 'a pdf_scheme" where
  "text_at s x y c p = emit (Text s x y (fontSize p) (fontStyle p) (textColor p) c) p"

definition addImage :: "canvas \<Rightarrow> rat \<Rightarrow> rat \<Rightarrow> rat \<Rightarrow> rat \<Rightarrow> 'a pdf_scheme \<Rightarrow> 'a pdf_scheme" where
  "addImage img x y w h p = emit (Img img x y w h) p"

definition addPage :: "'a pdf_scheme \<Rightarrow> 'a pdf_scheme" where
  "addPage p = emit AddPage p"

text \<open>The number of pages: the first page and one more for each \<^verbatim>\<open>addPage\<close>.\<close>

definition page_count :: "draw list \<Rightarrow> nat" where
  "page_count ds = Suc (length (filter (\<lambda>d. d = AddPage) ds))"

text \<open>The strings drawn, in drawing order.\<close>

fun texts :: "draw list \<Rightarrow> string list" where
  "texts [] = []"
| "texts (Text s x y n st c al # ds) = s # texts ds"
| "texts (d # ds) = texts ds"


section \<open>The browser and the libraries around an export\<close>

text \<open>
  What the code cannot decide itself is an input of the model: the page size jsPDF
  reports for A4, its line wrapping (which depends on font metrics), the clock, the
  locale's number format, and whether \<^verbatim>\<open>pdf.save\<close> throws.
\<close>

record env =
  pageWidth :: rat
  pageHeight :: rat
  splitTextToSize :: "string \<Rightarrow> rat \<Rightarrow> string list"
  localeNow :: string
  isoToday :: string
  numberToLocale :: "nat \<Rightarrow> string"
  saveThrows :: "string option"

text \<open>What \<^verbatim>\<open>html2canvas\<close> does for one element: it throws, or gives a canvas.\<close>

datatype capture = CaptureThrows string | Captured canvas

text \<open>
  What \<^verbatim>\<open>axios.post\<close> does for one insight request: it throws, or the reply
  carries \<^verbatim>\<open>data.insights\<close> (possibly missing).
\<close>

datatype response = RequestFails string | Replied "string option"

datatype log = Error string string | Warn string

text \<open>A statement either completes or throws; the state reached so far stays.\<close>

datatype 's outcome = Normal 's | Throws string 's

fun state_of :: "'s outcome \<Rightarrow> 's" where
  "state_of (Normal s) = s"
| "state_of (Throws err s) = s"

fun completes :: "'s outcome \<Rightarrow> bool" where
  "completes (Normal s) = True"
| "completes (Throws err s) = False"

section \<open>The ExportReport component\<close>

text \<open>
  One \<^verbatim>\<open>.recharts-wrapper\<close> of the active container, with what the DOM queries
  of the loop body return for it: the enclosing card (by identity), whether the card
  matches the KPI selector, the text of the card's title element, and the export buttons
  found in the card. Elements are identified by numbers.
\<close>

record chart =
  chartParent :: "nat option"
  hasKPIClass :: bool
  titleText :: "string option"
  exportButtons :: "nat list"
  captureResult :: capture
  insightsResponse :: response

record page_dom =
  activeContainer :: "chart list option"
  activeTabText :: "string option"

text \<open>
  What both exports keep while they run: the document, the vertical position, the
  console and the alerts shown. The panel export also has the \<^verbatim>\<open>style.display\<close>
  of the page's elements, the cards already seen and the component's two flags.
\<close>

record run = pdf +
  yPosition :: rat
  console :: "log list"
  alerts :: "string list"

record panel = run +
  display :: "nat \<Rightarrow> string"
  processedCharts :: "nat list"
  isExporting :: bool
  showDropdown :: bool

definition advance :: "rat \<Rightarrow> 'a run_scheme \<Rightarrow> 'a run_scheme" where
  "advance d s = s\<lparr>yPosition := yPosition s + d\<rparr>"

text \<open>\<^verbatim>\<open>pdf.text(t, x, yPosition)\<close>\<close>

definition text_here :: "string \<Rightarrow> rat \<Rightarrow> bool \<Rightarrow> 'a run_scheme \<Rightarrow> 'a run_scheme" where
  "text_here t x c s = text_at t x (yPosition s) c s"

text \<open>\<^verbatim>\<open>if (cond) { pdf.addPage(); yPosition = 20; }\<close>\<close>

definition page_break_if :: "bool \<Rightarrow> 'a run_scheme \<Rightarrow> 'a run_scheme" where
  "page_break_if b s = (if b then (addPage s)\<lparr>yPosition := 20\<rparr> else s)"

definition console_error :: "string \<Rightarrow> string \<Rightarrow> 'a run_scheme \<Rightarrow> 'a run_scheme" where
  "console_error msg err s = s\<lparr>console := console s @ [Error msg err]\<rparr>"

text \<open>
  \<open>generateAIInsights\<close>: the request either throws (caught here, logged, a fixed
  string returned) or replies; a missing or empty \<^verbatim>\<open>insights\<close> field gives another
  fixed string.
\<close>

definition generateAIInsights :: "response \<Rightarrow> 'a run_scheme \<Rightarrow> string \<times> 'a run_scheme" where
  "generateAIInsights r s =
     (case r of
        Replied v \<Rightarrow> (or_else v ''Analysis unavailable for this chart.'', s)
      | RequestFails err \<Rightarrow>
          (''Unable to generate insights at this time.'',
           console_error ''Failed to generate insights:'' err s))"

text \<open>The inner loop over the wrapped lines of one paragraph.\<close>

fun layout_wrapped :: "env \<Rightarrow> string list \<Rightarrow> 'a run_scheme \<Rightarrow> 'a run_scheme" where
  "layout_wrapped e [] s = s"
| "layout_wrapped e (textLine # rest) s =
     layout_wrapped e rest
       (advance 5 (text_here textLine 15 False
          (page_break_if (yPosition s > pageHeight e - 15) s)))"

definition is_section_header :: "string \<Rightarrow> bool" where
  "is_section_header t =
     (t \<noteq> [] \<and> last t = CHR '':'' \<and> length t < 50 \<and> CHR ''.'' \<notin> set t)"

text \<open>The body of the loop over the lines of the insight text.\<close>

definition layout_line :: "env \<Rightarrow> string \<Rightarrow> 'a run_scheme \<Rightarrow> 'a run_scheme" where
  "layout_line e line s =
     (let s1 = page_break_if (yPosition s > pageHeight e - 15) s;
          trimmedLine = trim line
      in if trimmedLine = [] then advance 2 s1
         else if is_section_header trimmedLine then
           advance 6 (text_here trimmedLine 15 False
             (setTextColor 60 60 60 (setFont bold (setFontSize 10 s1))))
         else
           advance 3 (layout_wrapped e (splitTextToSize e trimmedLine (pageWidth e - 30))
             (setTextColor 50 50 50 (setFont normal (setFontSize (19 / 2) s1)))))"

definition clean_insights :: "string \<Rightarrow> string" where
  "clean_insights insights = trim (remove_asterisks (remove_bold_markers insights))"

definition layout_insights :: "env \<Rightarrow> string \<Rightarrow> 'a run_scheme \<Rightarrow> 'a run_scheme" where
  "layout_insights e insights s =
     fold (layout_line e) (split_lines (clean_insights insights)) s"

text \<open>Hiding the export buttons of a card, and restoring the ones that were hidden.\<close>

definition hide_button :: "nat \<Rightarrow> (nat \<Rightarrow> string) \<times> nat list \<Rightarrow> (nat \<Rightarrow> string) \<times> nat list" where
  "hide_button b = (\<lambda>(d, hiddenElements).
     if d b \<noteq> ''none'' then (d(b := ''none''), hiddenElements @ [b])
     else (d, hiddenElements))"

definition restore_button :: "nat \<Rightarrow> (nat \<Rightarrow> string) \<Rightarrow> (nat \<Rightarrow> string)" where
  "restore_button b d = d(b := [])"

text \<open>
  The height that keeps the canvas's proportions at a given drawn width:
  \<^verbatim>\<open>(canvas.height * imgWidth) / canvas.width\<close>.
\<close>

definition imgHeight_of :: "canvas \<Rightarrow> rat \<Rightarrow> rat" where
  "imgHeight_of c imgWidth = (of_nat (height c) * imgWidth) / of_nat (width c)"

text \<open>The export buttons of the card are hidden; the ones this changed are returned.\<close>

definition hide_export_buttons :: "chart \<Rightarrow> 'a panel_scheme \<Rightarrow> nat list \<times> 'a panel_scheme" where
  "hide_export_buttons ch s =
     (let (d, hiddenElements) = fold hide_button (exportButtons ch) (display s, [])
      in (hiddenElements, s\<lparr>display := d\<rparr>))"

definition restore_hidden :: "nat list \<Rightarrow> 'a panel_scheme \<Rightarrow> 'a panel_scheme" where
  "restore_hidden hiddenElements s =
     s\<lparr>display := fold restore_button hiddenElements (display s)\<rparr>"

text \<open>
  The captured canvas is scaled to the printable width, limited to 120 mm of height, and
  drawn, on a new page when it would end lower than 50 mm above the page's end. A
  canvas is taken to have a positive width (the division by \<^verbatim>\<open>canvas.width\<close> is
  exact division here).
\<close>

definition place_image :: "env \<Rightarrow> canvas \<Rightarrow> 'a run_scheme \<Rightarrow> 'a run_scheme" where
  "place_image e cv s =
     (let imgWidth = pageWidth e - 30;
          imgHeight = imgHeight_of cv imgWidth;
          maxHeight = 120;
          s1 = page_break_if (yPosition s + min imgHeight maxHeight > pageHeight e - 50) s
      in advance (min imgHeight maxHeight + 10)
           (addImage cv 15 (yPosition s1) imgWidth (min imgHeight maxHeight) s1))"

text \<open>The grey box and the heading of the insights.\<close>

definition insights_heading :: "env \<Rightarrow> 'a run_scheme \<Rightarrow> 'a run_scheme" where
  "insights_heading e s =
     advance 7 (text_here ''KEY INSIGHTS & ANALYSIS'' 15 False
       (setTextColor 20 184 166 (setFont bold (setFontSize 11
         (emit (Rect 10 (yPosition s - 3) (pageWidth e - 20) 5) s)))))"

text \<open>The separator line under a chart's insights.\<close>

definition separator :: "env \<Rightarrow> 'a run_scheme \<Rightarrow> 'a run_scheme" where
  "separator e s =
     (let s1 = advance 2 s
      in advance 10 (emit (Line 15 (yPosition s1) (pageWidth e - 15) (yPosition s1)) s1))"

text \<open>
  The \<^verbatim>\<open>try\<close> block of the loop body. The only call in it that the model lets
  throw is \<^verbatim>\<open>html2canvas\<close>; when it throws, the statements after it are not
  run.
\<close>

definition capture_block :: "env \<Rightarrow> chart \<Rightarrow> 'a panel_scheme \<Rightarrow> 'a panel_scheme outcome" where
  "capture_block e ch s =
     (let (hiddenElements, s1) = hide_export_buttons ch s
      in case captureResult ch of
           CaptureThrows err \<Rightarrow> Throws err s1
         | Captured cv \<Rightarrow>
            (let s2 = restore_hidden hiddenElements s1;
                 s3 = place_image e cv s2;
                 s4 = insights_heading e s3;
                 (insights, s5) = generateAIInsights (insightsResponse ch) s4;
                 s6 = layout_insights e insights s5
             in Normal (separator e s6)))"

definition chart_title :: "chart \<Rightarrow> string" where
  "chart_title ch = or_else (map_option trim (titleText ch)) ''Chart''"

text \<open>The heading of a chart, on a new page when less than 120 mm are left.\<close>

definition chart_heading :: "env \<Rightarrow> string \<Rightarrow> 'a run_scheme \<Rightarrow> 'a run_scheme" where
  "chart_heading e chartTitle s =
     (let s1 = page_break_if (yPosition s > pageHeight e - 120) s
      in advance 10 (text_here chartTitle 15 False
           (setTextColor 20 184 166 (setFont bold (setFontSize 14 s1)))))"

text \<open>The body of the loop over the charts, with its \<^verbatim>\<open>try\<close>/\<^verbatim>\<open>catch\<close>.\<close>

definition process_chart :: "env \<Rightarrow> chart \<Rightarrow> 'a panel_scheme \<Rightarrow> 'a panel_scheme" where
  "process_chart e ch s =
     (case chartParent ch of
        None \<Rightarrow> s
      | Some parent \<Rightarrow>
          if parent \<in> set (processedCharts s) then s
          else if hasKPIClass ch then s
          else
            (let s1 = s\<lparr>processedCharts := processedCharts s @ [parent]\<rparr>;
                 s2 = chart_heading e (chart_title ch) s1
             in case capture_block e ch s2 of
                  Normal s3 \<Rightarrow> s3
                | Throws err s3 \<Rightarrow> console_error ''Failed to capture chart:'' err s3))"

definition pdf_save :: "env \<Rightarrow> string \<Rightarrow> 'a run_scheme \<Rightarrow> 'a run_scheme outcome" where
  "pdf_save e filename s =
     (case saveThrows e of
        None \<Rightarrow> Normal (s\<lparr>saved := Some filename\<rparr>)
      | Some err \<Rightarrow> Throws err s)"

definition tab_name :: "page_dom \<Rightarrow> string" where
  "tab_name pg = or_else (map_option trim (activeTabText pg)) ''Current Panel''"

definition title_block :: "env \<Rightarrow> string option \<Rightarrow> string option \<Rightarrow> string \<Rightarrow> 'a run_scheme \<Rightarrow> 'a run_scheme" where
  "title_block e dateFrom dateTo tabName s =
     (let s1 = text_here ''AI Regulation Analytics Report'' (pageWidth e / 2) True
                 (setTextColor 20 184 166 (setFontSize 20 s));
          s2 = text_here tabName (pageWidth e / 2) True
                 (setTextColor 0 0 0 (setFontSize 14 (advance 10 s1)));
          s3 = text_here (''Generated: '' @ localeNow e) (pageWidth e / 2) True
                 (setTextColor 100 100 100 (setFontSize 10 (advance 8 s2)));
          s4 = (if truthy dateFrom \<and> truthy dateTo
                then text_here (''Period: '' @ or_else dateFrom [] @ '' to '' @ or_else dateTo [])
                       (pageWidth e / 2) True (advance 5 s3)
                else s3)
      in advance 15 s4)"

definition panel_init :: "(nat \<Rightarrow> string) \<Rightarrow> panel" where
  "panel_init disp =
     \<lparr>ops = [], fontSize = 16, fontStyle = normal, textColor = (0, 0, 0), saved = None,
      yPosition = 20, console = [], alerts = [], display = disp, processedCharts = [],
      isExporting = True, showDropdown = True\<rparr>"

text \<open>
  \<open>exportCurrentPanel\<close>, from the props \<open>dateFrom\<close> and \<open>dateTo\<close>, the page and the
  \<^verbatim>\<open>style.display\<close> of its elements. With no visible container no document is
  made: the result keeps the state of \<open>panel_init\<close> with no drawing and no file.
\<close>

definition exportCurrentPanel ::
  "env \<Rightarrow> string option \<Rightarrow> string option \<Rightarrow> page_dom \<Rightarrow> (nat \<Rightarrow> string) \<Rightarrow> panel" where
  "exportCurrentPanel e dateFrom dateTo pg disp =
     (let s0 = panel_init disp;
          cleanup = (\<lambda>s. s\<lparr>isExporting := False, showDropdown := False\<rparr>)
      in case activeContainer pg of
           None \<Rightarrow>
             cleanup (s0\<lparr>alerts :=
               [''No active panel found. Please make sure you are viewing a tab with charts.'']\<rparr>)
         | Some charts \<Rightarrow>
            (let tabName = tab_name pg;
                 s1 = title_block e dateFrom dateTo tabName s0;
                 s2 = fold (process_chart e) charts s1
             in case pdf_save e (''AI_Regulation_'' @ replace_spaces tabName @ ''_'' @ isoToday e @ ''.pdf'') s2 of
                  Normal s3 \<Rightarrow> cleanup s3
                | Throws err s3 \<Rightarrow>
                    cleanup ((console_error ''Export failed:'' err s3)
                      \<lparr>alerts := alerts s3 @ [''Failed to export report. Please try again.'']\<rparr>)))"


section \<open>generatePDFReport\<close>

text \<open>
  An element of the page as \<open>generatePDFReport\<close> sees it: the size of its bounding
  rectangle and what \<^verbatim>\<open>html2canvas\<close> does for it. \<open>getElementById\<close> is a map from
  identifiers to elements.
\<close>

record element =
  rect_width :: rat
  rect_height :: rat
  canvasResult :: capture

record report_item =
  section_id :: string
  section_title :: string

text \<open>\<open>totalDocs\<close> is a number: missing or zero is falsy.\<close>

record metadata =
  dateRange :: "string option"
  totalDocs :: "nat option"

record report = run +
  capturedCount :: nat

datatype result = Success nat | Failure string

definition console_warn :: "string \<Rightarrow> 'a run_scheme \<Rightarrow> 'a run_scheme" where
  "console_warn msg s = s\<lparr>console := console s @ [Warn msg]\<rparr>"

definition metadata_block :: "env \<Rightarrow> metadata option \<Rightarrow> 'a run_scheme \<Rightarrow> 'a run_scheme" where
  "metadata_block e metadata s =
     (case metadata of
        None \<Rightarrow> s
      | Some m \<Rightarrow>
         (let s1 = setFont normal (setFontSize 10 s);
              s2 = (if truthy (dateRange m)
                    then advance 7 (text_here (''Date Range: '' @ or_else (dateRange m) []) 20 False s1)
                    else s1);
              s3 = (case totalDocs m of
                      None \<Rightarrow> s2
                    | Some n \<Rightarrow>
                        if n = 0 then s2
                        else advance 7 (text_here (''Total Documents: '' @ numberToLocale e n) 20 False s2))
          in advance 10 (text_here (''Generated: '' @ localeNow e) 20 False s3)))"

text \<open>The \<^verbatim>\<open>try\<close> block for one section whose element is there and visible.\<close>

definition section_block :: "env \<Rightarrow> element \<Rightarrow> report_item \<Rightarrow> report \<Rightarrow> report outcome" where
  "section_block e el item s =
     (case canvasResult el of
        CaptureThrows err \<Rightarrow> Throws err s
      | Captured cv \<Rightarrow>
         (let imgWidth = pageWidth e - 40;
              imgHeight = imgHeight_of cv imgWidth;
              s1 = page_break_if (yPosition s + imgHeight + 20 > pageHeight e) s;
              s2 = advance 10 (text_here (section_title item) 20 False
                     (setFont bold (setFontSize 14 s1)));
              s3 = advance (imgHeight + 15) (addImage cv 20 (yPosition s2) imgWidth imgHeight s2)
          in Normal (s3\<lparr>capturedCount := capturedCount s3 + 1\<rparr>)))"

text \<open>The \<^verbatim>\<open>catch\<close> block for one section: the error is logged and noted in the document.\<close>

definition failure_text :: "report_item \<Rightarrow> string" where
  "failure_text item = ''[Chart could not be captured: '' @ section_title item @ '']''"

definition failure_note :: "report_item \<Rightarrow> string \<Rightarrow> 'a run_scheme \<Rightarrow> 'a run_scheme" where
  "failure_note item err s =
     (let s1 = console_error (''Error adding section '' @ section_title item @ '':'') err s;
          s2 = setTextColor 200 0 0 (setFont italic (setFontSize 10 s1));
          s3 = text_here (failure_text item) 20 False s2
      in advance 10 (setTextColor 0 0 0 s3))"

text \<open>The body of the loop over the sections.\<close>

definition report_section ::
  "env \<Rightarrow> (string \<Rightarrow> element option) \<Rightarrow> report_item \<Rightarrow> report \<Rightarrow> report" where
  "report_section e getElementById item s =
     (case getElementById (section_id item) of
        None \<Rightarrow> console_warn (''Element not found: '' @ section_id item) s
      | Some el \<Rightarrow>
          if rect_width el = 0 \<or> rect_height el = 0
          then console_warn (''Element not visible: '' @ section_id item) s
          else
            (case section_block e el item s of
               Normal s1 \<Rightarrow> s1
             | Throws err s1 \<Rightarrow> failure_note item err s1))"

definition report_init :: report where
  "report_init =
     \<lparr>ops = [], fontSize = 16, fontStyle = normal, textColor = (0, 0, 0), saved = None,
      yPosition = 20, console = [], alerts = [], capturedCount = 0\<rparr>"

definition no_charts_note :: "report \<Rightarrow> report" where
  "no_charts_note s =
     (if capturedCount s = 0
      then text_at ''Please ensure charts are loaded and visible.'' 20 (yPosition s + 10) False
             (text_here ''No charts available to export.'' 20 False (setFontSize 12 s))
      else s)"

text \<open>
  \<open>generatePDFReport\<close> returns its result object; the final state is kept beside it,
  for what it drew, logged and saved.
\<close>

definition generatePDFReport ::
  "env \<Rightarrow> (string \<Rightarrow> element option) \<Rightarrow> string \<Rightarrow> report_item list \<Rightarrow> metadata option
     \<Rightarrow> result \<times> report" where
  "generatePDFReport e getElementById title sections metadata =
     (let s1 = advance 15 (text_here title (pageWidth e / 2) True
                 (setFont bold (setFontSize 20 report_init)));
          s2 = metadata_block e metadata s1;
          s3 = fold (report_section e getElementById) sections s2;
          s4 = no_charts_note s3
      in case pdf_save e (replace_spaces title @ ''_'' @ isoToday e @ ''.pdf'') s4 of
           Normal s5 \<Rightarrow> (Success (capturedCount s5), s5)
         | Throws err s5 \<Rightarrow>
             (Failure err,
              (console_error ''Error generating PDF report:'' err s5)
                \<lparr>alerts := alerts s5 @ [''Failed to generate PDF report. Please try again.'']\<rparr>))"


section \<open>Reading a finished document\<close>

text \<open>
  The blocks of a document are told apart by the text state they were drawn with: the
  panel export draws a chart's heading in bold at size 14, a header line of the insight
  text in bold at size 10 and the wrapped lines of a paragraph in normal weight at size
  9.5; the report draws a section's title in bold at size 14 and the note for a failed
  capture in italic at size 10.
\<close>

definition is_heading :: "draw \<Rightarrow> bool" where
  "is_heading d = (case d of Text t x y n st c al \<Rightarrow> n = 14 \<and> st = bold | _ \<Rightarrow> False)"

definition is_header_line :: "draw \<Rightarrow> bool" where
  "is_header_line d = (case d of Text t x y n st c al \<Rightarrow> n = 10 \<and> st = bold | _ \<Rightarrow> False)"

definition is_paragraph_line :: "draw \<Rightarrow> bool" where
  "is_paragraph_line d =
     (case d of Text t x y n st c al \<Rightarrow> n = 19 / 2 \<and> st = normal | _ \<Rightarrow> False)"

definition is_failure_note :: "draw \<Rightarrow> bool" where
  "is_failure_note d = (case d of Text t x y n st c al \<Rightarrow> n = 10 \<and> st = italic | _ \<Rightarrow> False)"

definition is_image :: "draw \<Rightarrow> bool" where
  "is_image d = (case d of Img cv x y w h \<Rightarrow> True | _ \<Rightarrow> False)"

definition section_headings :: "draw list \<Rightarrow> string list" where
  "section_headings ds = map content (filter is_heading ds)"

definition images :: "draw list \<Rightarrow> canvas list" where
  "images ds = map bitmap (filter is_image ds)"

text \<open>
  The insight text as the reader of the document meets it: header lines and paragraph
  lines, in drawing order.
\<close>

datatype block = Header string | Paragraph string

fun blocks :: "draw list \<Rightarrow> block list" where
  "blocks [] = []"
| "blocks (d # ds) =
     (if is_header_line d then Header (content d) # blocks ds
      else if is_paragraph_line d then Paragraph (content d) # blocks ds
      else blocks ds)"

text \<open>
  What one line of the cleaned insight text becomes: nothing when it is blank, one header
  when it is short, ends in a colon and has no full stop, and otherwise the lines jsPDF
  wraps it into.
\<close>

definition line_blocks :: "env \<Rightarrow> string \<Rightarrow> block list" where
  "line_blocks e line =
     (let t = trim line
      in if t = [] then []
         else if is_section_header t then [Header t]
         else map Paragraph (splitTextToSize e t (pageWidth e - 30)))"

text \<open>
  A drawing call of the insight loop: a page break, or a header or paragraph line drawn
  no lower than 15 mm above the page's end or at the top of a new page.
\<close>

definition insight_call :: "env \<Rightarrow> draw \<Rightarrow> bool" where
  "insight_call e d =
     (case d of
        AddPage \<Rightarrow> True
      | Text t x y n st c al \<Rightarrow>
          (y \<le> pageHeight e - 15 \<or> y = 20) \<and> ((n = 10 \<and> st = bold) \<or> (n = 19 / 2 \<and> st = normal))
      | _ \<Rightarrow> False)"

text \<open>
  The page-break thresholds of the panel export, read off a drawing call: a heading is
  drawn no lower than 120 mm above the page's end, an image ends no lower than 50 mm
  above it, a line of insight text is drawn no lower than 15 mm above it; or the call is
  at the top of a new page (20 mm).
\<close>

definition well_placed :: "env \<Rightarrow> draw \<Rightarrow> bool" where
  "well_placed e d =
     ((is_heading d \<longrightarrow> at_y d \<le> pageHeight e - 120 \<or> at_y d = 20) \<and>
      (is_image d \<longrightarrow> at_y d + drawn_height d \<le> pageHeight e - 50 \<or> at_y d = 20) \<and>
      (is_header_line d \<or> is_paragraph_line d \<longrightarrow> at_y d \<le> pageHeight e - 15 \<or> at_y d = 20))"

text \<open>
  The same thresholds with the page break itself: a block that is not within its
  threshold is the first drawing call after \<^verbatim>\<open>pdf.addPage()\<close>, at 20 mm. \<open>fresh\<close> says
  that the call just before was \<^verbatim>\<open>addPage\<close>; \<open>page_breaks\<close> reads a document from its
  first call to its last.
\<close>

definition placed :: "env \<Rightarrow> bool \<Rightarrow> draw \<Rightarrow> bool" where
  "placed e fresh d =
     ((is_heading d \<longrightarrow> at_y d \<le> pageHeight e - 120 \<or> fresh \<and> at_y d = 20) \<and>
      (is_image d \<longrightarrow> at_y d + drawn_height d \<le> pageHeight e - 50 \<or> fresh \<and> at_y d = 20) \<and>
      (is_header_line d \<or> is_paragraph_line d \<longrightarrow>
         at_y d \<le> pageHeight e - 15 \<or> fresh \<and> at_y d = 20))"

fun page_breaks :: "env \<Rightarrow> bool \<Rightarrow> draw list \<Rightarrow> bool" where
  "page_breaks e fresh [] = True"
| "page_breaks e fresh (d # ds) = (placed e fresh d \<and> page_breaks e (d = AddPage) ds)"

text \<open>A step that only appends drawing calls, each placed so.\<close>

definition breaks :: "env \<Rightarrow> 'a pdf_scheme \<Rightarrow> 'b pdf_scheme \<Rightarrow> bool" where
  "breaks e s s' = (\<exists>new. ops s' = ops s @ new \<and> page_breaks e False new)"

text \<open>
  Where a drawing call puts its mark: the baseline of a text, the upper edge of an image
  or of a rectangle, the height of a (horizontal) line. On one page the calls go down the
  page: \<open>top_down low ds\<close> says that no call of \<open>ds\<close> is higher than the call before it
  (\<open>low\<close> for the first) unless \<^verbatim>\<open>pdf.addPage()\<close> came in between. So the position
  goes back up only with a new page.
\<close>

fun drawn_at :: "draw \<Rightarrow> rat" where
  "drawn_at (Text t x y n st c al) = y"
| "drawn_at (Img cv x y w h) = y"
| "drawn_at (Rect x y w h) = y"
| "drawn_at (Line x1 y1 x2 y2) = y1"
| "drawn_at AddPage = 0"

fun top_down :: "rat \<Rightarrow> draw list \<Rightarrow> bool" where
  "top_down low [] = True"
| "top_down low (d # ds) = ((d = AddPage \<or> low \<le> drawn_at d) \<and> top_down (drawn_at d) ds)"

text \<open>
  A step that only appends drawing calls going down the page, and leaves the position at
  least 3 mm under the last of them (the grey box of the insights is drawn 3 mm above the
  position).
\<close>

definition descends :: "'a run_scheme \<Rightarrow> 'b run_scheme \<Rightarrow> bool" where
  "descends s s' =
     (\<exists>new. ops s' = ops s @ new \<and>
        (\<forall>low. low + 3 \<le> yPosition s \<longrightarrow>
           top_down low new \<and>
           (if new = [] then low else drawn_at (last new)) + 3 \<le> yPosition s'))"

text \<open>
  How the two exports scale an image: the panel export to the page width less 30 mm,
  with the height that keeps the canvas's proportions but no more than 120 mm; the
  report to the page width less 40 mm, with the height that keeps the proportions.
\<close>

definition panel_image :: "env \<Rightarrow> draw \<Rightarrow> bool" where
  "panel_image e d =
     (is_image d \<longrightarrow>
        drawn_width d = pageWidth e - 30 \<and>
        drawn_height d = min (imgHeight_of (bitmap d) (pageWidth e - 30)) 120)"

definition report_image :: "env \<Rightarrow> draw \<Rightarrow> bool" where
  "report_image e d =
     (is_image d \<longrightarrow>
        drawn_width d = pageWidth e - 40 \<and>
        drawn_height d = imgHeight_of (bitmap d) (pageWidth e - 40))"

text \<open>
  How a step of the panel export extends the document: it only appends drawing calls,
  with these chart headings and these images among them, all of them well placed and
  the images scaled as above.
\<close>

definition appends ::
  "env \<Rightarrow> 'a pdf_scheme \<Rightarrow> 'b pdf_scheme \<Rightarrow> string list \<Rightarrow> canvas list \<Rightarrow> bool" where
  "appends e s s' hs cs =
     (\<exists>new. ops s' = ops s @ new \<and> section_headings new = hs \<and> images new = cs
            \<and> (\<forall>d \<in> set new. well_placed e d \<and> panel_image e d))"

text \<open>
  What the report leaves in the document for its sections: a title or a failure note
  each, in drawing order.
\<close>

definition section_marks :: "draw list \<Rightarrow> string list" where
  "section_marks ds = map content (filter (\<lambda>d. is_heading d \<or> is_failure_note d) ds)"

text \<open>The same for a step of the report.\<close>

definition report_adds ::
  "env \<Rightarrow> 'a pdf_scheme \<Rightarrow> 'b pdf_scheme \<Rightarrow> string list \<Rightarrow> canvas list \<Rightarrow> bool" where
  "report_adds e s s' ms cs =
     (\<exists>new. ops s' = ops s @ new \<and> section_marks new = ms \<and> images new = cs
            \<and> (\<forall>d \<in> set new. report_image e d))"

text \<open>A drawing call without the string it drew: what is placed where, in which state.\<close>

fun geometry :: "draw \<Rightarrow> draw" where
  "geometry (Text t x y n st c al) = Text [] x y n st c al"
| "geometry d = d"

text \<open>The capture failures in a console, by the message the panel export logs them with.\<close>

fun capture_failures :: "log list \<Rightarrow> string list" where
  "capture_failures [] = []"
| "capture_failures (Error msg err # ls) =
     (if msg = ''Failed to capture chart:'' then err # capture_failures ls
      else capture_failures ls)"
| "capture_failures (l # ls) = capture_failures ls"

text \<open>
  The charts the loop of the panel export does not skip, given the cards seen so far:
  those with a card that has not been seen and is not a KPI card.
\<close>

fun selected :: "nat list \<Rightarrow> chart list \<Rightarrow> chart list" where
  "selected seen [] = []"
| "selected seen (ch # cs) =
     (case chartParent ch of
        None \<Rightarrow> selected seen cs
      | Some parent \<Rightarrow>
          if parent \<in> set seen \<or> hasKPIClass ch then selected seen cs
          else ch # selected (seen @ [parent]) cs)"

fun captured_canvases :: "capture list \<Rightarrow> canvas list" where
  "captured_canvases [] = []"
| "captured_canvases (Captured cv # rs) = cv # captured_canvases rs"
| "captured_canvases (CaptureThrows err # rs) = captured_canvases rs"

fun capture_errors :: "capture list \<Rightarrow> string list" where
  "capture_errors [] = []"
| "capture_errors (CaptureThrows err # rs) = err # capture_errors rs"
| "capture_errors (Captured cv # rs) = capture_errors rs"

text \<open>
  The sections the loop of the report does not skip: the element is there and its
  rectangle has neither zero width nor zero height. For those, \<open>section_capture\<close> is
  what the capture of the element does, and \<open>section_entry\<close> what the section leaves in
  the document: its title, or the note of the failed capture.
\<close>

definition shown :: "(string \<Rightarrow> element option) \<Rightarrow> report_item \<Rightarrow> bool" where
  "shown getElementById item =
     (case getElementById (section_id item) of
        None \<Rightarrow> False
      | Some el \<Rightarrow> rect_width el \<noteq> 0 \<and> rect_height el \<noteq> 0)"

definition section_capture :: "(string \<Rightarrow> element option) \<Rightarrow> report_item \<Rightarrow> capture option" where
  "section_capture getElementById item =
     (case getElementById (section_id item) of
        None \<Rightarrow> None
      | Some el \<Rightarrow>
          if rect_width el \<noteq> 0 \<and> rect_height el \<noteq> 0 then Some (canvasResult el) else None)"

definition section_entry :: "(string \<Rightarrow> element option) \<Rightarrow> report_item \<Rightarrow> string option" where
  "section_entry getElementById item =
     (case section_capture getElementById item of
        None \<Rightarrow> None
      | Some (Captured cv) \<Rightarrow> Some (section_title item)
      | Some (CaptureThrows err) \<Rightarrow> Some (failure_text item))"

section \<open>Concrete inputs\<close>

text \<open>An A4 page, text short enough never to wrap, and a fixed clock.\<close>

definition no_wrap :: "string \<Rightarrow> rat \<Rightarrow> string list" where
  "no_wrap t w = [t]"

definition plain_number :: "nat \<Rightarrow> string" where
  "plain_number n = ''n''"

definition a4 :: env where
  "a4 = \<lparr>pageWidth = 210, pageHeight = 297, splitTextToSize = no_wrap,
          localeNow = ''1/1/2025, 12:00:00 PM'', isoToday = ''2025-01-01'',
          numberToLocale = plain_number, saveThrows = None\<rparr>"

definition all_visible :: "nat \<Rightarrow> string" where
  "all_visible b = []"

text \<open>A page without any element.\<close>

definition no_elements :: "string \<Rightarrow> element option" where
  "no_elements i = None"

text \<open>
  Two charts in two cards, each with one export button: a wide canvas, which gives an
  image 15 mm high, and a square one, which would be 180 mm high.
\<close>

definition volume_chart :: chart where
  "volume_chart =
     \<lparr>chartParent = Some 1, hasKPIClass = False, titleText = Some ''Volume'',
      exportButtons = [7], captureResult = Captured \<lparr>width = 900, height = 75\<rparr>,
      insightsResponse = Replied (Some ''ok'')\<rparr>"

definition sentiment_chart :: chart where
  "sentiment_chart =
     \<lparr>chartParent = Some 2, hasKPIClass = False, titleText = Some ''Sentiment'',
      exportButtons = [8], captureResult = Captured \<lparr>width = 1000, height = 1000\<rparr>,
      insightsResponse = Replied (Some ''ok'')\<rparr>"

definition overview_page :: page_dom where
  "overview_page =
     \<lparr>activeContainer = Some [volume_chart, sentiment_chart], activeTabText = Some ''Overview''\<rparr>"

text \<open>A chart whose capture throws.\<close>

definition broken_chart :: chart where
  "broken_chart =
     \<lparr>chartParent = Some 3, hasKPIClass = False, titleText = Some ''Risk'',
      exportButtons = [9], captureResult = CaptureThrows ''unsupported CSS'',
      insightsResponse = Replied (Some ''ok'')\<rparr>"

definition broken_page :: page_dom where
  "broken_page = \<lparr>activeContainer = Some [broken_chart], activeTabText = Some ''Overview''\<rparr>"

text \<open>A page for the report with one visible element \<open>a\<close>, captured as a wide canvas.\<close>

definition one_element :: "string \<Rightarrow> element option" where
  "one_element i =
     (if i = ''a''
      then Some \<lparr>rect_width = 450, rect_height = 50,
                 canvasResult = Captured \<lparr>width = 900, height = 100\<rparr>\<rparr>
      else None)"

definition section_a :: report_item where
  "section_a = \<lparr>section_id = ''a'', section_title = ''Volume''\<rparr>"

definition section_b :: report_item where
  "section_b = \<lparr>section_id = ''b'', section_title = ''Sentiment''\<rparr>"

definition header_and_bullets :: string where
  "header_and_bullets =
     ''Header:'' @ [newline] @ ''- bullet one'' @ [newline] @ ''- bullet two''"

text \<open>The errors in a console, in the order they were logged.\<close>

fun logged_errors :: "log list \<Rightarrow> string list" where
  "logged_errors [] = []"
| "logged_errors (Error msg err # ls) = err # logged_errors ls"
| "logged_errors (Warn msg # ls) = logged_errors ls"

text \<open>A state without its console: what an export did apart from logging.\<close>

definition erase :: "'a run_scheme \<Rightarrow> 'a run_scheme" where
  "erase s = s\<lparr>console := []\<rparr>"

text \<open>The report after its loop and the note for no charts, before the file is saved.\<close>

definition report_done ::
  "env \<Rightarrow> (string \<Rightarrow> element option) \<Rightarrow> string \<Rightarrow> report_item list \<Rightarrow> metadata option
     \<Rightarrow> report" where
  "report_done e getElementById title sections metadata =
     no_charts_note (fold (report_section e getElementById) sections
       (metadata_block e metadata
         (advance 15 (text_here title (pageWidth e / 2) True
           (setFont bold (setFontSize 20 report_init))))))"

definition report_filename :: "env \<Rightarrow> string \<Rightarrow> string" where
  "report_filename e title = replace_spaces title @ ''_'' @ isoToday e @ ''.pdf''"

text \<open>
  What the layout of a run depends on and what it determines: the drawing calls without
  their strings, the text state and the position.
\<close>

definition run_view :: "'a run_scheme \<Rightarrow> draw list \<times> rat \<times> font_style \<times> rgb \<times> rat" where
  "run_view s = (map geometry (ops s), fontSize s, fontStyle s, textColor s, yPosition s)"

text \<open>The panel export after its loop, before the file is saved.\<close>

definition charts_done ::
  "env \<Rightarrow> string option \<Rightarrow> string option \<Rightarrow> page_dom \<Rightarrow> chart list \<Rightarrow> (nat \<Rightarrow> string) \<Rightarrow> panel" where
  "charts_done e df dt pg cs disp =
     fold (process_chart e) cs (title_block e df dt (tab_name pg) (panel_init disp))"

text \<open>
  The states the panel export of \<open>overview_page\<close> goes through on \<open>a4\<close>, after the
  title, after the first chart and after the second: without a date range, and with the
  range from 2024-01-01 to 2024-12-31.
\<close>

definition after_title :: panel where
  "after_title = (panel_init all_visible)\<lparr>ops :=
       [Text ''AI Regulation Analytics Report'' 105 20 20 normal (20, 184, 166) True,
        Text ''Overview'' 105 30 14 normal (0, 0, 0) True,
        Text ''Generated: 1/1/2025, 12:00:00 PM'' 105 38 10 normal (100, 100, 100) True],
       fontSize := 10, textColor := (100, 100, 100), yPosition := 53\<rparr>"

definition after_volume :: panel where
  "after_volume = (panel_init all_visible)\<lparr>ops :=
       [Text ''AI Regulation Analytics Report'' 105 20 20 normal (20, 184, 166) True,
        Text ''Overview'' 105 30 14 normal (0, 0, 0) True,
        Text ''Generated: 1/1/2025, 12:00:00 PM'' 105 38 10 normal (100, 100, 100) True,
        Text ''Volume'' 15 53 14 bold (20, 184, 166) False,
        Img \<lparr>width = 900, height = 75\<rparr> 15 63 180 15, Rect 10 85 190 5,
        Text ''KEY INSIGHTS & ANALYSIS'' 15 88 11 bold (20, 184, 166) False,
        Text ''ok'' 15 95 (19 / 2) normal (50, 50, 50) False,
        Line 15 105 195 105],
       fontSize := 19 / 2, fontStyle := normal, textColor := (50, 50, 50), yPosition := 115,
       display := all_visible(7 := []), processedCharts := [1]\<rparr>"

definition after_sentiment :: panel where
  "after_sentiment = (panel_init all_visible)\<lparr>ops :=
       [Text ''AI Regulation Analytics Report'' 105 20 20 normal (20, 184, 166) True,
        Text ''Overview'' 105 30 14 normal (0, 0, 0) True,
        Text ''Generated: 1/1/2025, 12:00:00 PM'' 105 38 10 normal (100, 100, 100) True,
        Text ''Volume'' 15 53 14 bold (20, 184, 166) False,
        Img \<lparr>width = 900, height = 75\<rparr> 15 63 180 15, Rect 10 85 190 5,
        Text ''KEY INSIGHTS & ANALYSIS'' 15 88 11 bold (20, 184, 166) False,
        Text ''ok'' 15 95 (19 / 2) normal (50, 50, 50) False,
        Line 15 105 195 105,
        Text ''Sentiment'' 15 115 14 bold (20, 184, 166) False,
        Img \<lparr>width = 1000, height = 1000\<rparr> 15 125 180 120, Rect 10 252 190 5,
        Text ''KEY INSIGHTS & ANALYSIS'' 15 255 11 bold (20, 184, 166) False,
        Text ''ok'' 15 262 (19 / 2) normal (50, 50, 50) False,
        Line 15 272 195 272],
       fontSize := 19 / 2, fontStyle := normal, textColor := (50, 50, 50), yPosition := 282,
       display := all_visible(7 := [], 8 := []), processedCharts := [1, 2]\<rparr>"

definition dated_title :: panel where
  "dated_title = (panel_init all_visible)\<lparr>ops :=
       [Text ''AI Regulation Analytics Report'' 105 20 20 normal (20, 184, 166) True,
        Text ''Overview'' 105 30 14 normal (0, 0, 0) True,
        Text ''Generated: 1/1/2025, 12:00:00 PM'' 105 38 10 normal (100, 100, 100) True,
        Text ''Period: 2024-01-01 to 2024-12-31'' 105 43 10 normal (100, 100, 100) True],
       fontSize := 10, textColor := (100, 100, 100), yPosition := 58\<rparr>"

definition dated_volume :: panel where
  "dated_volume = (panel_init all_visible)\<lparr>ops :=
       [Text ''AI Regulation Analytics Report'' 105 20 20 normal (20, 184, 166) True,
        Text ''Overview'' 105 30 14 normal (0, 0, 0) True,
        Text ''Generated: 1/1/2025, 12:00:00 PM'' 105 38 10 normal (100, 100, 100) True,
        Text ''Period: 2024-01-01 to 2024-12-31'' 105 43 10 normal (100, 100, 100) True,
        Text ''Volume'' 15 58 14 bold (20, 184, 166) False,
        Img \<lparr>width = 900, height = 75\<rparr> 15 68 180 15, Rect 10 90 190 5,
        Text ''KEY INSIGHTS & ANALYSIS'' 15 93 11 bold (20, 184, 166) False,
        Text ''ok'' 15 100 (19 / 2) normal (50, 50, 50) False,
        Line 15 110 195 110],
       fontSize := 19 / 2, fontStyle := normal, textColor := (50, 50, 50), yPosition := 120,
       display := all_visible(7 := []), processedCharts := [1]\<rparr>"

definition dated_sentiment :: panel where
  "dated_sentiment = (panel_init all_visible)\<lparr>ops :=
       [Text ''AI Regulation Analytics Report'' 105 20 20 normal (20, 184, 166) True,
        Text ''Overview'' 105 30 14 normal (0, 0, 0) True,
        Text ''Generated: 1/1/2025, 12:00:00 PM'' 105 38 10 normal (100, 100, 100) True,
        Text ''Period: 2024-01-01 to 2024-12-31'' 105 43 10 normal (100, 100, 100) True,
        Text ''Volume'' 15 58 14 bold (20, 184, 166) False,
        Img \<lparr>width = 900, height = 75\<rparr> 15 68 180 15, Rect 10 90 190 5,
        Text ''KEY INSIGHTS & ANALYSIS'' 15 93 11 bold (20, 184, 166) False,
        Text ''ok'' 15 100 (19 / 2) normal (50, 50, 50) False,
        Line 15 110 195 110,
        Text ''Sentiment'' 15 120 14 bold (20, 184, 166) False, AddPage,
        Img \<lparr>width = 1000, height = 1000\<rparr> 15 20 180 120, Rect 10 147 190 5,
        Text ''KEY INSIGHTS & ANALYSIS'' 15 150 11 bold (20, 184, 166) False,
        Text ''ok'' 15 157 (19 / 2) normal (50, 50, 50) False,
        Line 15 167 195 167],
       fontSize := 19 / 2, fontStyle := normal, textColor := (50, 50, 50), yPosition := 177,
       display := all_visible(7 := [], 8 := []), processedCharts := [1, 2]\<rparr>"

text \<open>
  A chart whose canvas gives an image 70 mm high, and a page with it before the square
  one; the states of the panel export of that page on \<open>a4\<close> without a date range, after
  the first chart and after the second. From the second heading, at 170 mm, the heading
  and its image need 130 mm, which the page of 297 mm does not have.
\<close>

definition trend_chart :: chart where
  "trend_chart =
     \<lparr>chartParent = Some 4, hasKPIClass = False, titleText = Some ''Trend'',
      exportButtons = [10], captureResult = Captured \<lparr>width = 900, height = 350\<rparr>,
      insightsResponse = Replied (Some ''ok'')\<rparr>"

definition trend_page :: page_dom where
  "trend_page =
     \<lparr>activeContainer = Some [trend_chart, sentiment_chart], activeTabText = Some ''Overview''\<rparr>"

definition after_trend :: panel where
  "after_trend = (panel_init all_visible)\<lparr>ops :=
       [Text ''AI Regulation Analytics Report'' 105 20 20 normal (20, 184, 166) True,
        Text ''Overview'' 105 30 14 normal (0, 0, 0) True,
        Text ''Generated: 1/1/2025, 12:00:00 PM'' 105 38 10 normal (100, 100, 100) True,
        Text ''Trend'' 15 53 14 bold (20, 184, 166) False,
        Img \<lparr>width = 900, height = 350\<rparr> 15 63 180 70, Rect 10 140 190 5,
        Text ''KEY INSIGHTS & ANALYSIS'' 15 143 11 bold (20, 184, 166) False,
        Text ''ok'' 15 150 (19 / 2) normal (50, 50, 50) False,
        Line 15 160 195 160],
       fontSize := 19 / 2, fontStyle := normal, textColor := (50, 50, 50), yPosition := 170,
       display := all_visible(10 := []), processedCharts := [4]\<rparr>"

definition trend_sentiment :: panel where
  "trend_sentiment = (panel_init all_visible)\<lparr>ops :=
       [Text ''AI Regulation Analytics Report'' 105 20 20 normal (20, 184, 166) True,
        Text ''Overview'' 105 30 14 normal (0, 0, 0) True,
        Text ''Generated: 1/1/2025, 12:00:00 PM'' 105 38 10 normal (100, 100, 100) True,
        Text ''Trend'' 15 53 14 bold (20, 184, 166) False,
        Img \<lparr>width = 900, height = 350\<rparr> 15 63 180 70, Rect 10 140 190 5,
        Text ''KEY INSIGHTS & ANALYSIS'' 15 143 11 bold (20, 184, 166) False,
        Text ''ok'' 15 150 (19 / 2) normal (50, 50, 50) False,
        Line 15 160 195 160,
        Text ''Sentiment'' 15 170 14 bold (20, 184, 166) False, AddPage,
        Img \<lparr>width = 1000, height = 1000\<rparr> 15 20 180 120, Rect 10 147 190 5,
        Text ''KEY INSIGHTS & ANALYSIS'' 15 150 11 bold (20, 184, 166) False,
        Text ''ok'' 15 157 (19 / 2) normal (50, 50, 50) False,
        Line 15 167 195 167],
       fontSize := 19 / 2, fontStyle := normal, textColor := (50, 50, 50), yPosition := 177,
       display := all_visible(10 := [], 8 := []), processedCharts := [4, 2]\<rparr>"

text \<open>A page whose visible container has no chart.\<close>

definition empty_page :: page_dom where
  "empty_page = \<lparr>activeContainer = Some [], activeTabText = Some ''Overview''\<rparr>"

text \<open>The browser of \<open>a4\<close> when \<^verbatim>\<open>pdf.save\<close> throws.\<close>

definition a4_save_fails :: env where
  "a4_save_fails = a4\<lparr>saveThrows := Some ''blocked''\<rparr>"
section \<open>Properties of the panel export\<close>

subsection \<open>The insight text\<close>

lemmas prims = setFontSize_def setFont_def setTextColor_def emit_def text_at_def addImage_def
  addPage_def advance_def text_here_def page_break_if_def console_error_def console_warn_def

lemma blocks_append: "blocks (xs @ ys) = blocks xs @ blocks ys"
  by (induction xs) simp_all

lemma layout_wrapped_ops:
  "fontSize s = 19 / 2 \<Longrightarrow> fontStyle s = normal \<Longrightarrow>
   \<exists>new. ops (layout_wrapped e ts s) = ops s @ new
     \<and> blocks new = map Paragraph ts
     \<and> (\<forall>d \<in> set new. insight_call e d)"
proof (induction ts arbitrary: s)
  case Nil
  then show ?case by simp
next
  case (Cons t ts)
  let ?s' = "advance 5 (text_here t 15 False (page_break_if (yPosition s > pageHeight e - 15) s))"
  have "fontSize ?s' = 19 / 2" "fontStyle ?s' = normal"
    using Cons.prems by (simp_all add: prims)
  then obtain new where n: "ops (layout_wrapped e ts ?s') = ops ?s' @ new"
    "blocks new = map Paragraph ts" "\<forall>d \<in> set new. insight_call e d"
    using Cons.IH[of ?s'] by blast
  show ?case
  proof (cases "yPosition s > pageHeight e - 15")
    case True
    then show ?thesis using n Cons.prems
      by (intro exI[of _ "AddPage # Text t 15 20 (fontSize s) (fontStyle s) (textColor s) False # new"])
         (simp add: prims insight_call_def is_header_line_def is_paragraph_line_def
            del: eq_divide_eq_numeral1 divide_eq_eq_numeral1)
  next
    case False
    then show ?thesis using n Cons.prems
      by (intro exI[of _ "Text t 15 (yPosition s) (fontSize s) (fontStyle s) (textColor s) False # new"])
         (simp add: prims insight_call_def is_header_line_def is_paragraph_line_def
            del: eq_divide_eq_numeral1 divide_eq_eq_numeral1)
  qed
qed

lemma layout_line_ops:
  "\<exists>new. ops (layout_line e l s) = ops s @ new
     \<and> blocks new = line_blocks e l
     \<and> (\<forall>d \<in> set new. insight_call e d)"
proof -
  let ?s1 = "page_break_if (yPosition s > pageHeight e - 15) s"
  obtain pre where pre: "ops ?s1 = ops s @ pre" "blocks pre = []" "\<forall>d \<in> set pre. insight_call e d"
    "yPosition ?s1 \<le> pageHeight e - 15 \<or> yPosition ?s1 = 20"
    by (cases "yPosition s > pageHeight e - 15")
       (simp_all add: prims insight_call_def is_header_line_def is_paragraph_line_def)
  show ?thesis
  proof (cases "trim l = []")
    case True
    then show ?thesis using pre
      by (intro exI[of _ pre]) (simp add: layout_line_def line_blocks_def prims Let_def)
  next
    case nonblank: False
    show ?thesis
    proof (cases "is_section_header (trim l)")
      case True
      then show ?thesis using pre nonblank
        by (intro exI[of _ "pre @ [Text (trim l) 15 (yPosition ?s1) 10 bold (60, 60, 60) False]"])
           (simp add: layout_line_def line_blocks_def Let_def blocks_append
              setFontSize_def setFont_def setTextColor_def emit_def text_at_def advance_def text_here_def
              insight_call_def is_header_line_def is_paragraph_line_def)
    next
      case False
      let ?s2 = "setTextColor 50 50 50 (setFont normal (setFontSize (19 / 2) ?s1))"
      have "fontSize ?s2 = 19 / 2" "fontStyle ?s2 = normal"
        by (simp_all add: setFontSize_def setFont_def setTextColor_def)
      then obtain new where n: 
        "ops (layout_wrapped e (splitTextToSize e (trim l) (pageWidth e - 30)) ?s2) = ops ?s2 @ new"
        "blocks new = map Paragraph (splitTextToSize e (trim l) (pageWidth e - 30))"
        "\<forall>d \<in> set new. insight_call e d"
        using layout_wrapped_ops[of ?s2 e "splitTextToSize e (trim l) (pageWidth e - 30)"] by blast
      have "ops ?s2 = ops s @ pre" using pre(1)
        by (simp add: setFontSize_def setFont_def setTextColor_def)
      then show ?thesis using pre n nonblank False
        by (intro exI[of _ "pre @ new"])
           (auto simp add: layout_line_def line_blocks_def Let_def blocks_append advance_def)
    qed
  qed
qed

lemma fold_layout_line_ops:
  "\<exists>new. ops (fold (layout_line e) ls s) = ops s @ new
     \<and> blocks new = concat (map (line_blocks e) ls)
     \<and> (\<forall>d \<in> set new. insight_call e d)"
proof (induction ls arbitrary: s)
  case Nil
  then show ?case by simp
next
  case (Cons l ls)
  obtain n1 where n1: "ops (layout_line e l s) = ops s @ n1" "blocks n1 = line_blocks e l"
    "\<forall>d \<in> set n1. insight_call e d"
    using layout_line_ops by blast
  obtain n2 where n2: "ops (fold (layout_line e) ls (layout_line e l s)) = ops (layout_line e l s) @ n2"
    "blocks n2 = concat (map (line_blocks e) ls)" "\<forall>d \<in> set n2. insight_call e d"
    using Cons.IH by blast
  show ?case using n1 n2
    by (intro exI[of _ "n1 @ n2"]) (auto simp: blocks_append)
qed

lemma layout_insights_ops:
  "\<exists>new. ops (layout_insights e t s) = ops s @ new
     \<and> blocks new = concat (map (line_blocks e) (split_lines (clean_insights t)))
     \<and> (\<forall>d \<in> set new. insight_call e d)"
  unfolding layout_insights_def by (rule fold_layout_line_ops)

lemma remove_bold_then_asterisks:
  "remove_asterisks (remove_bold_markers s) = remove_asterisks s"
  by (induction s rule: remove_bold_markers.induct) (simp_all add: remove_asterisks_def)

lemma set_trim: "set (trim s) \<subseteq> set s"
  unfolding trim_def by (metis set_dropWhileD set_rev subsetI)

lemma clean_insights_no_asterisk: "CHR ''*'' \<notin> set (clean_insights t)"
  using set_trim[of "remove_asterisks (remove_bold_markers t)"]
  by (auto simp: clean_insights_def remove_asterisks_def)


lemma section_headings_append [simp]:
  "section_headings (xs @ ys) = section_headings xs @ section_headings ys"
  by (simp add: section_headings_def)

lemma images_append [simp]: "images (xs @ ys) = images xs @ images ys"
  by (simp add: images_def)

lemma insight_call_facts:
  "insight_call e d \<Longrightarrow> \<not> is_heading d \<and> \<not> is_image d \<and> well_placed e d \<and> panel_image e d"
  by (cases d) (auto simp: insight_call_def is_heading_def is_image_def well_placed_def
      is_header_line_def is_paragraph_line_def panel_image_def)

lemma insight_calls_no_headings:
  "\<forall>d \<in> set new. insight_call e d \<Longrightarrow> section_headings new = [] \<and> images new = []"
  by (induction new) (auto simp: section_headings_def images_def dest: insight_call_facts)

lemma layout_wrapped_fields:
  "console (layout_wrapped e ts s) = console s"
  "saved (layout_wrapped e ts s) = saved s"
  "alerts (layout_wrapped e ts s) = alerts s"
  by (induction ts arbitrary: s) (simp_all add: prims)

lemma layout_wrapped_panel:
  "display (layout_wrapped e ts s) = display s"
  "processedCharts (layout_wrapped e ts s) = processedCharts s"
  by (induction ts arbitrary: s) (simp_all add: prims)

lemma layout_line_fields:
  "console (layout_line e l s) = console s"
  "saved (layout_line e l s) = saved s"
  "alerts (layout_line e l s) = alerts s"
  by (simp_all add: layout_line_def Let_def layout_wrapped_fields prims)

lemma layout_line_panel:
  "display (layout_line e l s) = display s"
  "processedCharts (layout_line e l s) = processedCharts s"
  by (simp_all add: layout_line_def Let_def layout_wrapped_panel prims)

lemma fold_layout_line_fields:
  "console (fold (layout_line e) ls s) = console s"
  "saved (fold (layout_line e) ls s) = saved s"
  "alerts (fold (layout_line e) ls s) = alerts s"
  by (induction ls arbitrary: s) (simp_all add: layout_line_fields)

lemma fold_layout_line_panel:
  "display (fold (layout_line e) ls s) = display s"
  "processedCharts (fold (layout_line e) ls s) = processedCharts s"
  by (induction ls arbitrary: s) (simp_all add: layout_line_panel)

lemma layout_insights_fields:
  "console (layout_insights e t s) = console s"
  "saved (layout_insights e t s) = saved s"
  "alerts (layout_insights e t s) = alerts s"
  by (simp_all add: layout_insights_def fold_layout_line_fields)

lemma layout_insights_panel:
  "display (layout_insights e t s) = display s"
  "processedCharts (layout_insights e t s) = processedCharts s"
  by (simp_all add: layout_insights_def fold_layout_line_panel)

lemma capture_failures_append [simp]:
  "capture_failures (xs @ ys) = capture_failures xs @ capture_failures ys"
  by (induction xs rule: capture_failures.induct) simp_all

lemma generateAIInsights_fields:
  "ops (snd (generateAIInsights r s)) = ops s"
  "yPosition (snd (generateAIInsights r s)) = yPosition s"
  "saved (snd (generateAIInsights r s)) = saved s"
  "alerts (snd (generateAIInsights r s)) = alerts s"
  "capture_failures (console (snd (generateAIInsights r s))) = capture_failures (console s)"
  by (cases r; simp add: generateAIInsights_def console_error_def)+

lemma generateAIInsights_panel:
  "display (snd (generateAIInsights r s)) = display s"
  "processedCharts (snd (generateAIInsights r s)) = processedCharts s"
  by (cases r; simp add: generateAIInsights_def console_error_def)+


subsection \<open>Steps that only append\<close>

lemma appends_refl: "ops s' = ops s \<Longrightarrow> appends e s s' [] []"
  by (simp add: appends_def section_headings_def images_def)

lemma appends_trans:
  "appends e s s' h1 c1 \<Longrightarrow> appends e s' s'' h2 c2 \<Longrightarrow> appends e s s'' (h1 @ h2) (c1 @ c2)"
  unfolding appends_def
proof (elim exE conjE)
  fix n1 n2
  assume a: "ops s' = ops s @ n1" "section_headings n1 = h1" "images n1 = c1"
    "\<forall>d\<in>set n1. well_placed e d \<and> panel_image e d" "ops s'' = ops s' @ n2" "section_headings n2 = h2"
    "images n2 = c2" "\<forall>d\<in>set n2. well_placed e d \<and> panel_image e d"
  show "\<exists>new. ops s'' = ops s @ new \<and> section_headings new = h1 @ h2 \<and> images new = c1 @ c2
      \<and> (\<forall>d\<in>set new. well_placed e d \<and> panel_image e d)"
    using a by (intro exI[of _ "n1 @ n2"]) auto
qed

lemma appends_trans0:
  "appends e s s' [] [] \<Longrightarrow> appends e s' s'' h c \<Longrightarrow> appends e s s'' h c"
  using appends_trans[of e s s' "[]" "[]" s'' h c] by simp

lemma appends_trans1:
  "appends e s s' h c \<Longrightarrow> appends e s' s'' [] [] \<Longrightarrow> appends e s s'' h c"
  using appends_trans[of e s s' h c s'' "[]" "[]"] by simp

lemmas obs = section_headings_def images_def well_placed_def is_heading_def is_image_def
  is_header_line_def is_paragraph_line_def panel_image_def

lemma layout_insights_appends: "appends e s (layout_insights e t s) [] []"
proof -
  obtain new where new: "ops (layout_insights e t s) = ops s @ new" "\<forall>d \<in> set new. insight_call e d"
    using layout_insights_ops by blast
  then show ?thesis
    unfolding appends_def using insight_calls_no_headings[OF new(2)] insight_call_facts
    by (intro exI[of _ new]) blast
qed

lemma place_image_appends: "appends e s (place_image e cv s) [] [cv]"
  unfolding appends_def
  by (cases "yPosition s + min (imgHeight_of cv (pageWidth e - 30)) 120 > pageHeight e - 50")
     (simp_all add: place_image_def Let_def prims obs)

lemma insights_heading_appends: "appends e s (insights_heading e s) [] []"
  unfolding appends_def by (simp add: insights_heading_def prims obs)

lemma separator_appends: "appends e s (separator e s) [] []"
  unfolding appends_def by (simp add: separator_def Let_def prims obs)

lemma chart_heading_appends: "appends e s (chart_heading e t s) [t] []"
  unfolding appends_def
  by (cases "yPosition s > pageHeight e - 120") (simp_all add: chart_heading_def Let_def prims obs)

lemma generateAIInsights_appends: "appends e s (snd (generateAIInsights r s)) [] []"
  by (rule appends_refl) (simp add: generateAIInsights_fields)

subsection \<open>What the steps leave alone\<close>

lemma place_image_frame:
  "console (place_image e cv s) = console s"
  "saved (place_image e cv s) = saved s"
  "alerts (place_image e cv s) = alerts s"
  by (simp_all add: place_image_def Let_def prims)

lemma place_image_panel:
  "display (place_image e cv s) = display s"
  "processedCharts (place_image e cv s) = processedCharts s"
  by (simp_all add: place_image_def Let_def prims)

lemma insights_heading_frame:
  "console (insights_heading e s) = console s"
  "saved (insights_heading e s) = saved s"
  "alerts (insights_heading e s) = alerts s"
  by (simp_all add: insights_heading_def prims)

lemma insights_heading_panel:
  "display (insights_heading e s) = display s"
  "processedCharts (insights_heading e s) = processedCharts s"
  by (simp_all add: insights_heading_def prims)

lemma separator_frame:
  "console (separator e s) = console s"
  "saved (separator e s) = saved s"
  "alerts (separator e s) = alerts s"
  by (simp_all add: separator_def Let_def prims)

lemma separator_panel:
  "display (separator e s) = display s"
  "processedCharts (separator e s) = processedCharts s"
  by (simp_all add: separator_def Let_def prims)

lemma chart_heading_frame:
  "console (chart_heading e t s) = console s"
  "saved (chart_heading e t s) = saved s"
  "alerts (chart_heading e t s) = alerts s"
  by (simp_all add: chart_heading_def Let_def prims)

lemma chart_heading_panel:
  "display (chart_heading e t s) = display s"
  "processedCharts (chart_heading e t s) = processedCharts s"
  by (simp_all add: chart_heading_def Let_def prims)

lemma hide_export_buttons_frame:
  "ops (snd (hide_export_buttons ch s)) = ops s"
  "console (snd (hide_export_buttons ch s)) = console s"
  "saved (snd (hide_export_buttons ch s)) = saved s"
  "alerts (snd (hide_export_buttons ch s)) = alerts s"
  "processedCharts (snd (hide_export_buttons ch s)) = processedCharts s"
  by (simp_all add: hide_export_buttons_def case_prod_beta)

lemma restore_hidden_frame:
  "ops (restore_hidden hs s) = ops s"
  "console (restore_hidden hs s) = console s"
  "saved (restore_hidden hs s) = saved s"
  "alerts (restore_hidden hs s) = alerts s"
  "processedCharts (restore_hidden hs s) = processedCharts s"
  by (simp_all add: restore_hidden_def)

lemmas frames = layout_insights_fields layout_insights_panel generateAIInsights_fields
  generateAIInsights_panel place_image_frame place_image_panel insights_heading_frame
  insights_heading_panel separator_frame separator_panel chart_heading_frame chart_heading_panel
  hide_export_buttons_frame restore_hidden_frame

lemma capture_block_fields:
  "processedCharts (state_of (capture_block e ch s)) = processedCharts s"
  "capture_failures (console (state_of (capture_block e ch s))) = capture_failures (console s)"
  "saved (state_of (capture_block e ch s)) = saved s"
  "alerts (state_of (capture_block e ch s)) = alerts s"
  by (cases "captureResult ch"; simp add: capture_block_def Let_def case_prod_beta frames)+

lemma capture_block_completes:
  "completes (capture_block e ch s) =
     (case captureResult ch of Captured cv \<Rightarrow> True | CaptureThrows err \<Rightarrow> False)"
  by (simp add: capture_block_def Let_def case_prod_beta split: capture.splits)

lemma capture_block_appends:
  "appends e s (state_of (capture_block e ch s)) [] (captured_canvases [captureResult ch])"
proof (cases "captureResult ch")
  case (CaptureThrows err)
  then show ?thesis
    by (simp add: capture_block_def Let_def case_prod_beta appends_refl frames)
next
  case (Captured cv)
  define s1 where "s1 = snd (hide_export_buttons ch s)"
  define s2 where "s2 = restore_hidden (fst (hide_export_buttons ch s)) s1"
  define s3 where "s3 = place_image e cv s2"
  define s4 where "s4 = insights_heading e s3"
  define s5 where "s5 = snd (generateAIInsights (insightsResponse ch) s4)"
  define s6 where "s6 = layout_insights e (fst (generateAIInsights (insightsResponse ch) s4)) s5"
  have cb: "state_of (capture_block e ch s) = separator e s6"
    using Captured
    by (simp add: capture_block_def Let_def case_prod_beta s1_def s2_def s3_def s4_def s5_def s6_def)
  have a2: "appends e s s2 [] []"
    by (rule appends_refl) (simp add: s2_def s1_def frames)
  have a3: "appends e s2 s3 [] [cv]" unfolding s3_def by (rule place_image_appends)
  have a4: "appends e s3 s4 [] []" unfolding s4_def by (rule insights_heading_appends)
  have a5: "appends e s4 s5 [] []" unfolding s5_def by (rule generateAIInsights_appends)
  have a6: "appends e s5 s6 [] []" unfolding s6_def by (rule layout_insights_appends)
  have a7: "appends e s6 (separator e s6) [] []" by (rule separator_appends)
  have "appends e s (separator e s6) [] [cv]"
    by (rule appends_trans0[OF a2 appends_trans1[OF appends_trans1[OF appends_trans1[OF
          appends_trans1[OF a3 a4] a5] a6] a7]])
  then show ?thesis using cb Captured by simp
qed

lemma captured_canvases_append [simp]:
  "captured_canvases (xs @ ys) = captured_canvases xs @ captured_canvases ys"
  by (induction xs rule: captured_canvases.induct) simp_all

lemma capture_errors_append [simp]:
  "capture_errors (xs @ ys) = capture_errors xs @ capture_errors ys"
  by (induction xs rule: capture_errors.induct) simp_all

subsection \<open>The loop over the charts\<close>

lemma process_chart_skip:
  "selected (processedCharts s) [ch] = [] \<Longrightarrow> process_chart e ch s = s"
  by (auto simp: process_chart_def split: option.splits if_splits)

lemma capture_block_outcome:
  "capture_block e ch s =
     (case captureResult ch of
        Captured cv \<Rightarrow> Normal (state_of (capture_block e ch s))
      | CaptureThrows err \<Rightarrow> Throws err (state_of (capture_block e ch s)))"
  by (simp add: capture_block_def Let_def case_prod_beta split: capture.splits)

lemma process_chart_take:
  assumes "selected (processedCharts s) [ch] \<noteq> []"
  obtains parent s3 where "chartParent ch = Some parent"
    "selected (processedCharts s) [ch] = [ch]"
    "s3 = state_of (capture_block e ch (chart_heading e (chart_title ch)
            (s\<lparr>processedCharts := processedCharts s @ [parent]\<rparr>)))"
    "process_chart e ch s =
       (case captureResult ch of
          Captured cv \<Rightarrow> s3
        | CaptureThrows err \<Rightarrow> console_error ''Failed to capture chart:'' err s3)"
proof -
  from assms obtain parent where p: "chartParent ch = Some parent"
    "parent \<notin> set (processedCharts s)" "\<not> hasKPIClass ch"
    by (auto split: option.splits if_splits)
  let ?s2 = "chart_heading e (chart_title ch) (s\<lparr>processedCharts := processedCharts s @ [parent]\<rparr>)"
  have "process_chart e ch s =
       (case captureResult ch of
          Captured cv \<Rightarrow> state_of (capture_block e ch ?s2)
        | CaptureThrows err \<Rightarrow> console_error ''Failed to capture chart:'' err (state_of (capture_block e ch ?s2)))"
  proof (cases "captureResult ch")
    case (CaptureThrows err)
    then obtain s3 where "capture_block e ch ?s2 = Throws err s3"
      using capture_block_outcome[of e ch ?s2] by simp
    then show ?thesis using p CaptureThrows
      by (simp add: process_chart_def Let_def)
  next
    case (Captured cv)
    then obtain s3 where "capture_block e ch ?s2 = Normal s3"
      using capture_block_outcome[of e ch ?s2] by simp
    then show ?thesis using p Captured
      by (simp add: process_chart_def Let_def)
  qed
  then show ?thesis using p that[of parent "state_of (capture_block e ch ?s2)"] by simp
qed


lemma process_chart_appends:
  "appends e s (process_chart e ch s)
     (map chart_title (selected (processedCharts s) [ch]))
     (captured_canvases (map captureResult (selected (processedCharts s) [ch])))"
proof (cases "selected (processedCharts s) [ch] = []")
  case True
  then show ?thesis by (simp add: process_chart_skip appends_refl)
next
  case False
  then obtain parent s3 where t: "chartParent ch = Some parent"
    "selected (processedCharts s) [ch] = [ch]"
    "s3 = state_of (capture_block e ch (chart_heading e (chart_title ch)
            (s\<lparr>processedCharts := processedCharts s @ [parent]\<rparr>)))"
    "process_chart e ch s =
       (case captureResult ch of
          Captured cv \<Rightarrow> s3
        | CaptureThrows err \<Rightarrow> console_error ''Failed to capture chart:'' err s3)"
    by (rule process_chart_take)
  let ?s1 = "s\<lparr>processedCharts := processedCharts s @ [parent]\<rparr>"
  have a1: "appends e s ?s1 [] []" by (rule appends_refl) simp
  have a2: "appends e ?s1 (chart_heading e (chart_title ch) ?s1) [chart_title ch] []"
    by (rule chart_heading_appends)
  have a3: "appends e (chart_heading e (chart_title ch) ?s1) s3 [] (captured_canvases [captureResult ch])"
    unfolding t(3) by (rule capture_block_appends)
  have a4: "appends e s3 (process_chart e ch s) [] []"
    by (rule appends_refl) (simp add: t(4) console_error_def split: capture.splits)
  have "appends e s (process_chart e ch s) [chart_title ch] (captured_canvases [captureResult ch])"
    using appends_trans0[OF a1 appends_trans1[OF appends_trans[OF a2 a3] a4]] by simp
  then show ?thesis unfolding t(2) by simp
qed

lemma process_chart_console:
  "capture_failures (console (process_chart e ch s)) =
     capture_failures (console s) @ capture_errors (map captureResult (selected (processedCharts s) [ch]))"
proof (cases "selected (processedCharts s) [ch] = []")
  case True
  then show ?thesis by (simp add: process_chart_skip)
next
  case False
  then obtain parent s3 where t: "chartParent ch = Some parent"
    "selected (processedCharts s) [ch] = [ch]"
    "s3 = state_of (capture_block e ch (chart_heading e (chart_title ch)
            (s\<lparr>processedCharts := processedCharts s @ [parent]\<rparr>)))"
    "process_chart e ch s =
       (case captureResult ch of
          Captured cv \<Rightarrow> s3
        | CaptureThrows err \<Rightarrow> console_error ''Failed to capture chart:'' err s3)"
    by (rule process_chart_take)
  have "capture_failures (console s3) = capture_failures (console s)"
    by (simp add: t(3) capture_block_fields frames)
  then show ?thesis
    unfolding t(2) t(4) by (simp add: console_error_def split: capture.splits)
qed

lemma process_chart_frame:
  "saved (process_chart e ch s) = saved s"
  "alerts (process_chart e ch s) = alerts s"
proof -
  have "saved (process_chart e ch s) = saved s \<and> alerts (process_chart e ch s) = alerts s"
  proof (cases "selected (processedCharts s) [ch] = []")
    case True
    then show ?thesis by (simp add: process_chart_skip)
  next
    case False
    then obtain parent s3 where t: 
      "s3 = state_of (capture_block e ch (chart_heading e (chart_title ch)
              (s\<lparr>processedCharts := processedCharts s @ [parent]\<rparr>)))"
      "process_chart e ch s =
         (case captureResult ch of
            Captured cv \<Rightarrow> s3
          | CaptureThrows err \<Rightarrow> console_error ''Failed to capture chart:'' err s3)"
      by (rule process_chart_take)
    have "saved s3 = saved s" "alerts s3 = alerts s"
      by (simp_all add: t(1) capture_block_fields frames)
    then show ?thesis
      by (simp add: t(2) console_error_def split: capture.splits)
  qed
  then show "saved (process_chart e ch s) = saved s" "alerts (process_chart e ch s) = alerts s"
    by simp_all
qed

lemma selected_step:
  "selected (processedCharts s) (ch # cs) =
     selected (processedCharts s) [ch] @ selected (processedCharts (process_chart e ch s)) cs"
proof (cases "selected (processedCharts s) [ch] = []")
  case True
  then show ?thesis
    by (auto simp: process_chart_skip split: option.splits if_splits)
next
  case False
  then obtain parent s3 where t: "chartParent ch = Some parent"
    "selected (processedCharts s) [ch] = [ch]"
    "s3 = state_of (capture_block e ch (chart_heading e (chart_title ch)
            (s\<lparr>processedCharts := processedCharts s @ [parent]\<rparr>)))"
    "process_chart e ch s =
       (case captureResult ch of
          Captured cv \<Rightarrow> s3
        | CaptureThrows err \<Rightarrow> console_error ''Failed to capture chart:'' err s3)"
    by (rule process_chart_take)
  have "processedCharts s3 = processedCharts s @ [parent]"
    by (simp add: t(3) capture_block_fields frames)
  then have "processedCharts (process_chart e ch s) = processedCharts s @ [parent]"
    by (simp add: t(4) console_error_def split: capture.splits)
  then show ?thesis using t(1) False by (auto split: if_splits)
qed

lemma fold_process_chart_appends:
  "appends e s (fold (process_chart e) cs s)
     (map chart_title (selected (processedCharts s) cs))
     (captured_canvases (map captureResult (selected (processedCharts s) cs)))"
proof (induction cs arbitrary: s)
  case Nil
  then show ?case by (simp add: appends_refl)
next
  case (Cons ch cs)
  show ?case
    using appends_trans[OF process_chart_appends[of e s ch] Cons.IH[of "process_chart e ch s"]]
    by (simp add: selected_step[of s ch cs e] del: selected.simps)
qed

lemma fold_process_chart_console:
  "capture_failures (console (fold (process_chart e) cs s)) =
     capture_failures (console s) @ capture_errors (map captureResult (selected (processedCharts s) cs))"
proof (induction cs arbitrary: s)
  case Nil
  then show ?case by simp
next
  case (Cons ch cs)
  show ?case
    using Cons.IH[of "process_chart e ch s"]
    by (simp add: selected_step[of s ch cs e] process_chart_console del: selected.simps)
qed

lemma fold_process_chart_frame:
  "saved (fold (process_chart e) cs s) = saved s"
  "alerts (fold (process_chart e) cs s) = alerts s"
  by (induction cs arbitrary: s) (simp_all add: process_chart_frame)


subsection \<open>The whole panel export\<close>

lemma title_block_appends:
  "fontStyle s = normal \<Longrightarrow> appends e s (title_block e df dt tab s) [] []"
  unfolding appends_def by (simp add: title_block_def Let_def prims obs)

lemma title_block_frame:
  "console (title_block e df dt tab s) = console s"
  "saved (title_block e df dt tab s) = saved s"
  "alerts (title_block e df dt tab s) = alerts s"
  "processedCharts (title_block e df dt tab s) = processedCharts s"
  by (simp_all add: title_block_def Let_def prims)

lemma exportCurrentPanel_some:
  "ops (exportCurrentPanel e df dt (pg\<lparr>activeContainer := Some cs\<rparr>) disp) = ops (charts_done e df dt pg cs disp)"
  "capture_failures (console (exportCurrentPanel e df dt (pg\<lparr>activeContainer := Some cs\<rparr>) disp))
     = capture_failures (console (charts_done e df dt pg cs disp))"
  "saved (exportCurrentPanel e df dt (pg\<lparr>activeContainer := Some cs\<rparr>) disp) =
     (case saveThrows e of
        None \<Rightarrow> Some (''AI_Regulation_'' @ replace_spaces (tab_name pg) @ ''_'' @ isoToday e @ ''.pdf'')
      | Some err \<Rightarrow> None)"
  "isExporting (exportCurrentPanel e df dt (pg\<lparr>activeContainer := Some cs\<rparr>) disp) = False"
  by (simp_all add: exportCurrentPanel_def charts_done_def Let_def pdf_save_def tab_name_def
      console_error_def fold_process_chart_frame title_block_frame panel_init_def
      split: option.splits)

lemma charts_done_appends:
  "appends e (panel_init disp) (charts_done e df dt pg cs disp)
     (map chart_title (selected [] cs)) (captured_canvases (map captureResult (selected [] cs)))"
proof -
  let ?s1 = "title_block e df dt (tab_name pg) (panel_init disp)"
  have a1: "appends e (panel_init disp) ?s1 [] []"
    by (rule title_block_appends) (simp add: panel_init_def)
  have p: "processedCharts ?s1 = []" by (simp add: title_block_frame panel_init_def)
  show ?thesis
    using appends_trans0[OF a1 fold_process_chart_appends[of e ?s1 cs]]
    by (simp add: charts_done_def p)
qed

lemma charts_done_console:
  "capture_failures (console (charts_done e df dt pg cs disp)) =
      capture_errors (map captureResult (selected [] cs))"
  by (simp add: charts_done_def fold_process_chart_console title_block_frame panel_init_def)

lemma appends_init:
  "appends e s s' hs cs \<Longrightarrow> ops s = [] \<Longrightarrow>
     section_headings (ops s') = hs \<and> images (ops s') = cs
       \<and> (\<forall>d \<in> set (ops s'). well_placed e d \<and> panel_image e d)"
  by (auto simp: appends_def)


section \<open>Properties of the report\<close>

subsection \<open>The loop over the sections\<close>

lemmas robs = section_marks_def images_def report_image_def is_heading_def is_failure_note_def
  is_image_def

lemma section_marks_append [simp]:
  "section_marks (xs @ ys) = section_marks xs @ section_marks ys"
  by (simp add: section_marks_def)

lemma report_adds_refl: "ops s' = ops s \<Longrightarrow> report_adds e s s' [] []"
  by (simp add: report_adds_def section_marks_def images_def)

lemma report_adds_trans:
  "report_adds e s s' m1 c1 \<Longrightarrow> report_adds e s' s'' m2 c2 \<Longrightarrow>
   report_adds e s s'' (m1 @ m2) (c1 @ c2)"
  unfolding report_adds_def
proof (elim exE conjE)
  fix n1 n2
  assume a: "ops s' = ops s @ n1" "section_marks n1 = m1" "images n1 = c1"
    "\<forall>d\<in>set n1. report_image e d" "ops s'' = ops s' @ n2" "section_marks n2 = m2"
    "images n2 = c2" "\<forall>d\<in>set n2. report_image e d"
  show "\<exists>new. ops s'' = ops s @ new \<and> section_marks new = m1 @ m2 \<and> images new = c1 @ c2
      \<and> (\<forall>d\<in>set new. report_image e d)"
    using a by (intro exI[of _ "n1 @ n2"]) auto
qed

lemma section_block_outcome:
  "section_block e el item s =
     (case canvasResult el of
        Captured cv \<Rightarrow> Normal (state_of (section_block e el item s))
      | CaptureThrows err \<Rightarrow> Throws err s)"
  by (simp add: section_block_def Let_def split: capture.splits)

lemma section_block_adds:
  "canvasResult el = Captured cv \<Longrightarrow>
   report_adds e s (state_of (section_block e el item s)) [section_title item] [cv]"
  unfolding report_adds_def
  by (cases "yPosition s + imgHeight_of cv (pageWidth e - 40) + 20 > pageHeight e")
     (simp_all add: section_block_def Let_def prims robs)

lemma section_block_fields:
  "canvasResult el = Captured cv \<Longrightarrow>
   capturedCount (state_of (section_block e el item s)) = Suc (capturedCount s)"
  "canvasResult el = Captured cv \<Longrightarrow> saved (state_of (section_block e el item s)) = saved s"
  "canvasResult el = Captured cv \<Longrightarrow> alerts (state_of (section_block e el item s)) = alerts s"
  "canvasResult el = Captured cv \<Longrightarrow> console (state_of (section_block e el item s)) = console s"
  by (simp_all add: section_block_def Let_def prims)

lemma failure_note_adds:
  "report_adds e s (failure_note item err s) [failure_text item] []"
  unfolding report_adds_def by (simp add: failure_note_def Let_def prims robs)

lemma failure_note_fields:
  "capturedCount (failure_note item err s) = capturedCount s"
  "saved (failure_note item err s) = saved s"
  "alerts (failure_note item err s) = alerts s"
  "console (failure_note item err s) =
     console s @ [Error (''Error adding section '' @ section_title item @ '':'') err]"
  by (simp_all add: failure_note_def Let_def prims)

lemma report_section_skip:
  "section_capture g item = None \<Longrightarrow>
   \<exists>msg. report_section e g item s = console_warn msg s"
  by (auto simp: report_section_def section_capture_def split: option.splits if_splits)

lemma report_section_throws:
  "section_capture g item = Some (CaptureThrows err) \<Longrightarrow>
   report_section e g item s = failure_note item err s"
  by (auto simp: report_section_def section_capture_def section_block_def
      split: option.splits if_splits)

lemma report_section_captured:
  "section_capture g item = Some (Captured cv) \<Longrightarrow>
   \<exists>el. canvasResult el = Captured cv \<and>
        report_section e g item s = state_of (section_block e el item s)"
proof -
  assume a: "section_capture g item = Some (Captured cv)"
  then obtain el where el: "g (section_id item) = Some el" "canvasResult el = Captured cv"
    "rect_width el \<noteq> 0" "rect_height el \<noteq> 0"
    by (auto simp: section_capture_def split: option.splits if_splits)
  obtain s1 where "section_block e el item s = Normal s1"
    using section_block_outcome[of e el item s] el(2) by simp
  then show ?thesis using el by (intro exI[of _ el]) (simp add: report_section_def)
qed

lemma report_section_adds:
  "report_adds e s (report_section e g item s)
     (List.map_filter (section_entry g) [item])
     (captured_canvases (List.map_filter (section_capture g) [item]))"
proof (cases "section_capture g item")
  case None
  then obtain msg where "report_section e g item s = console_warn msg s"
    using report_section_skip by blast
  then show ?thesis using None
    by (simp add: section_entry_def report_adds_refl console_warn_def)
next
  case (Some r)
  show ?thesis
  proof (cases r)
    case (CaptureThrows err)
    then show ?thesis using Some failure_note_adds[of e s item err]
      by (simp add: report_section_throws section_entry_def)
  next
    case (Captured cv)
    then obtain el where "canvasResult el = Captured cv"
      "report_section e g item s = state_of (section_block e el item s)"
      using Some report_section_captured by blast
    then show ?thesis using Some Captured section_block_adds[of el cv e s item]
      by (simp add: section_entry_def)
  qed
qed

lemma report_section_fields:
  "capturedCount (report_section e g item s) =
     capturedCount s + length (captured_canvases (List.map_filter (section_capture g) [item]))"
  "saved (report_section e g item s) = saved s"
  "alerts (report_section e g item s) = alerts s"
proof -
  have "capturedCount (report_section e g item s) =
     capturedCount s + length (captured_canvases (List.map_filter (section_capture g) [item]))
     \<and> saved (report_section e g item s) = saved s
     \<and> alerts (report_section e g item s) = alerts s"
  proof (cases "section_capture g item")
    case None
    then obtain msg where "report_section e g item s = console_warn msg s"
      using report_section_skip by blast
    then show ?thesis using None by (simp add: console_warn_def)
  next
    case (Some r)
    show ?thesis
    proof (cases r)
      case (CaptureThrows err)
      then show ?thesis using Some by (simp add: report_section_throws failure_note_fields)
    next
      case (Captured cv)
      then obtain el where "canvasResult el = Captured cv"
        "report_section e g item s = state_of (section_block e el item s)"
        using Some report_section_captured by blast
      then show ?thesis using Some Captured
        by (simp add: section_block_fields)
    qed
  qed
  then show "capturedCount (report_section e g item s) =
     capturedCount s + length (captured_canvases (List.map_filter (section_capture g) [item]))"
    "saved (report_section e g item s) = saved s"
    "alerts (report_section e g item s) = alerts s"
    by simp_all
qed

lemma map_filter_Cons_append:
  "List.map_filter f (x # xs) = List.map_filter f [x] @ List.map_filter f xs"
  by (simp split: option.splits)

lemma fold_report_section_adds:
  "report_adds e s (fold (report_section e g) items s)
     (List.map_filter (section_entry g) items)
     (captured_canvases (List.map_filter (section_capture g) items))"
proof (induction items arbitrary: s)
  case Nil
  then show ?case by (simp add: report_adds_refl)
next
  case (Cons item items)
  show ?case
    using report_adds_trans[OF report_section_adds[of e s g item] Cons.IH[of "report_section e g item s"]]
    by (subst (1 2) map_filter_Cons_append) simp
qed

lemma fold_report_section_fields:
  "capturedCount (fold (report_section e g) items s) =
     capturedCount s + length (captured_canvases (List.map_filter (section_capture g) items))"
  "saved (fold (report_section e g) items s) = saved s"
  "alerts (fold (report_section e g) items s) = alerts s"
proof (induction items arbitrary: s)
  case Nil
  { case 1 show ?case by simp }
  { case 2 show ?case by simp }
  { case 3 show ?case by simp }
next
  case (Cons item items)
  { case 1 show ?case
      by (subst map_filter_Cons_append) (simp add: Cons.IH report_section_fields) }
  { case 2 show ?case by (simp add: Cons.IH report_section_fields) }
  { case 3 show ?case by (simp add: Cons.IH report_section_fields) }
qed

lemma logged_errors_append [simp]:
  "logged_errors (xs @ ys) = logged_errors xs @ logged_errors ys"
  by (induction xs rule: logged_errors.induct) simp_all

lemma report_section_console:
  "logged_errors (console (report_section e g item s)) =
     logged_errors (console s) @ capture_errors (List.map_filter (section_capture g) [item])"
proof (cases "section_capture g item")
  case None
  then obtain msg where "report_section e g item s = console_warn msg s"
    using report_section_skip by blast
  then show ?thesis using None by (simp add: console_warn_def)
next
  case (Some r)
  show ?thesis
  proof (cases r)
    case (CaptureThrows err)
    then show ?thesis using Some by (simp add: report_section_throws failure_note_fields)
  next
    case (Captured cv)
    then obtain el where "canvasResult el = Captured cv"
      "report_section e g item s = state_of (section_block e el item s)"
      using Some report_section_captured by blast
    then show ?thesis using Some Captured
      by (simp add: section_block_fields)
  qed
qed

lemma fold_report_section_console:
  "logged_errors (console (fold (report_section e g) items s)) =
     logged_errors (console s) @ capture_errors (List.map_filter (section_capture g) items)"
proof (induction items arbitrary: s)
  case Nil
  then show ?case by simp
next
  case (Cons item items)
  show ?case
    by (subst map_filter_Cons_append) (simp add: Cons.IH report_section_console)
qed

subsection \<open>The state apart from the console\<close>

lemma erase_console_warn: "erase (console_warn msg s) = erase s"
  by (simp add: erase_def console_warn_def)

lemma erase_failure_note: "erase (failure_note item err s) = erase (failure_note item err (erase s))"
  by (simp add: erase_def failure_note_def Let_def prims)

lemma erase_section_block:
  "canvasResult el = Captured cv \<Longrightarrow>
   erase (state_of (section_block e el item s)) = erase (state_of (section_block e el item (erase s)))"
  by (simp add: erase_def section_block_def Let_def prims)

lemma erase_report_section:
  "erase (report_section e g item s) = erase (report_section e g item (erase s))"
proof (cases "section_capture g item")
  case None
  obtain m1 where "report_section e g item s = console_warn m1 s"
    using None report_section_skip by blast
  moreover obtain m2 where "report_section e g item (erase s) = console_warn m2 (erase s)"
    using None report_section_skip by blast
  ultimately show ?thesis by (simp add: erase_console_warn) (simp add: erase_def)
next
  case (Some r)
  show ?thesis
  proof (cases r)
    case (CaptureThrows err)
    then show ?thesis using Some erase_failure_note[of item err s]
      by (simp add: report_section_throws)
  next
    case (Captured cv)
    then have c: "section_capture g item = Some (Captured cv)" using Some by simp
    then obtain el where el: "g (section_id item) = Some el" "canvasResult el = Captured cv"
      "rect_width el \<noteq> 0" "rect_height el \<noteq> 0"
      by (auto simp: section_capture_def split: option.splits if_splits)
    obtain s1 where s1: "section_block e el item s = Normal s1"
      using section_block_outcome[of e el item s] el(2) by simp
    obtain s2 where s2: "section_block e el item (erase s) = Normal s2"
      using section_block_outcome[of e el item "erase s"] el(2) by simp
    have "erase s1 = erase s2"
      using erase_section_block[OF el(2), of e item s] s1 s2 by simp
    then show ?thesis using el s1 s2 by (simp add: report_section_def)
  qed
qed

lemma erase_fold_report_section:
  "erase (fold (report_section e g) items s) = erase (fold (report_section e g) items (erase s))"
proof (induction items arbitrary: s)
  case Nil
  then show ?case by (simp add: erase_def)
next
  case (Cons item items)
  have "erase (fold (report_section e g) (item # items) s) =
        erase (fold (report_section e g) items (erase (report_section e g item s)))"
    using Cons.IH[of "report_section e g item s"] by simp
  also have "\<dots> = erase (fold (report_section e g) items (erase (report_section e g item (erase s))))"
    using erase_report_section[of e g item s] by simp
  also have "\<dots> = erase (fold (report_section e g) (item # items) (erase s))"
    using Cons.IH[of "report_section e g item (erase s)"] by simp
  finally show ?case .
qed

lemma erase_skipped:
  "\<not> shown g item \<Longrightarrow> erase (report_section e g item s) = erase s"
proof -
  assume "\<not> shown g item"
  then have "section_capture g item = None"
    by (auto simp: shown_def section_capture_def split: option.splits)
  then obtain msg where "report_section e g item s = console_warn msg s"
    using report_section_skip by blast
  then show ?thesis by (simp add: erase_console_warn)
qed

lemma fold_skipped:
  "\<not> shown g item \<Longrightarrow>
   erase (fold (report_section e g) (pre @ item # post) s) =
   erase (fold (report_section e g) (pre @ post) s)"
proof -
  assume a: "\<not> shown g item"
  let ?s1 = "fold (report_section e g) pre s"
  have "erase (fold (report_section e g) post (report_section e g item ?s1)) =
        erase (fold (report_section e g) post (erase (report_section e g item ?s1)))"
    by (rule erase_fold_report_section)
  also have "\<dots> = erase (fold (report_section e g) post (erase ?s1))"
    using erase_skipped[OF a] by simp
  also have "\<dots> = erase (fold (report_section e g) post ?s1)"
    by (rule erase_fold_report_section[symmetric])
  finally show ?thesis by simp
qed

subsection \<open>The whole report\<close>

lemma texts_append [simp]: "texts (xs @ ys) = texts xs @ texts ys"
  by (induction xs rule: texts.induct) simp_all

lemma metadata_block_adds: "report_adds e s (metadata_block e m s) [] []"
  unfolding report_adds_def
  by (cases m) (auto simp: metadata_block_def Let_def prims robs split: option.splits)

lemma metadata_block_fields:
  "capturedCount (metadata_block e m s) = capturedCount s"
  "saved (metadata_block e m s) = saved s"
  "alerts (metadata_block e m s) = alerts s"
  "console (metadata_block e m s) = console s"
  by (cases m; simp add: metadata_block_def Let_def prims split: option.splits)+

lemma no_charts_note_adds: "report_adds e s (no_charts_note s) [] []"
  unfolding report_adds_def by (simp add: no_charts_note_def prims robs)

lemma no_charts_note_fields:
  "capturedCount (no_charts_note s) = capturedCount s"
  "saved (no_charts_note s) = saved s"
  "alerts (no_charts_note s) = alerts s"
  "console (no_charts_note s) = console s"
  by (simp_all add: no_charts_note_def prims)

lemma no_charts_note_texts:
  "texts (ops (no_charts_note s)) =
     texts (ops s) @ (if capturedCount s = 0
       then [''No charts available to export.'', ''Please ensure charts are loaded and visible.'']
       else [])"
  by (simp add: no_charts_note_def prims)

lemma erase_no_charts_note: "erase (no_charts_note s) = no_charts_note (erase s)"
  by (simp add: erase_def no_charts_note_def prims)

lemma generatePDFReport_done:
  "generatePDFReport e g title items meta =
     (case saveThrows e of
        None \<Rightarrow> (Success (capturedCount (report_done e g title items meta)),
                 (report_done e g title items meta)\<lparr>saved := Some (report_filename e title)\<rparr>)
      | Some err \<Rightarrow>
          (Failure err,
           (console_error ''Error generating PDF report:'' err (report_done e g title items meta))
             \<lparr>alerts := alerts (report_done e g title items meta) @
                 [''Failed to generate PDF report. Please try again.'']\<rparr>))"
  by (simp add: generatePDFReport_def report_done_def report_filename_def Let_def pdf_save_def
      split: option.splits)

lemma report_done_adds:
  "report_adds e report_init (report_done e g title items meta)
     (List.map_filter (section_entry g) items)
     (captured_canvases (List.map_filter (section_capture g) items))"
proof -
  let ?s1 = "advance 15 (text_here title (pageWidth e / 2) True
           (setFont bold (setFontSize 20 report_init)))"
  let ?s2 = "metadata_block e meta ?s1"
  let ?s3 = "fold (report_section e g) items ?s2"
  have a1: "report_adds e report_init ?s1 [] []"
    unfolding report_adds_def by (simp add: prims robs report_init_def)
  have a2: "report_adds e ?s1 ?s2 [] []" by (rule metadata_block_adds)
  have a3: "report_adds e ?s2 ?s3 (List.map_filter (section_entry g) items)
     (captured_canvases (List.map_filter (section_capture g) items))"
    by (rule fold_report_section_adds)
  have a4: "report_adds e ?s3 (no_charts_note ?s3) [] []" by (rule no_charts_note_adds)
  show ?thesis
    using report_adds_trans[OF report_adds_trans[OF report_adds_trans[OF a1 a2] a3] a4]
    by (simp add: report_done_def)
qed

lemma report_done_fields:
  "capturedCount (report_done e g title items meta) =
     length (captured_canvases (List.map_filter (section_capture g) items))"
  "saved (report_done e g title items meta) = None"
  "alerts (report_done e g title items meta) = []"
  "logged_errors (console (report_done e g title items meta)) =
     capture_errors (List.map_filter (section_capture g) items)"
  by (simp_all add: report_done_def no_charts_note_fields fold_report_section_fields
      fold_report_section_console metadata_block_fields prims report_init_def)

lemma report_done_skipped:
  "\<not> shown g item \<Longrightarrow>
   erase (report_done e g title (pre @ item # post) meta) =
   erase (report_done e g title (pre @ post) meta)"
  unfolding report_done_def erase_no_charts_note using fold_skipped[of g item e pre post] by simp

lemma report_adds_init:
  "report_adds e s s' ms cs \<Longrightarrow> ops s = [] \<Longrightarrow>
     section_marks (ops s') = ms \<and> images (ops s') = cs \<and> (\<forall>d \<in> set (ops s'). report_image e d)"
  by (auto simp: report_adds_def)

lemma generatePDFReport_ops:
  "ops (snd (generatePDFReport e g title items meta)) = ops (report_done e g title items meta)"
  by (simp add: generatePDFReport_done console_error_def split: option.splits)

lemma erase_fields:
  "ops (erase s) = ops s" "yPosition (erase s) = yPosition s" "saved (erase s) = saved s"
  "alerts (erase s) = alerts s" "fontSize (erase s) = fontSize s"
  "fontStyle (erase s) = fontStyle s" "textColor (erase s) = textColor s"
  by (simp_all add: erase_def)

lemma erase_capturedCount: "capturedCount (erase s) = capturedCount s"
  by (simp add: erase_def)



section \<open>Page breaks come before the block they make room for\<close>

lemmas pobs = placed_def is_heading_def is_image_def is_header_line_def is_paragraph_line_def

lemma placed_mono: "placed e False d \<Longrightarrow> placed e b d"
  by (auto simp: placed_def)

lemma page_breaks_mono: "page_breaks e False ds \<Longrightarrow> page_breaks e b ds"
  by (cases ds) (auto intro: placed_mono)

lemma page_breaks_append:
  "page_breaks e b xs \<Longrightarrow> page_breaks e False ys \<Longrightarrow> page_breaks e b (xs @ ys)"
proof (induction xs arbitrary: b)
  case Nil
  then show ?case by (simp add: page_breaks_mono)
next
  case (Cons x xs)
  then show ?case by simp
qed

lemma breaks_refl: "ops s' = ops s \<Longrightarrow> breaks e s s'"
  by (simp add: breaks_def)

lemma breaks_trans: "breaks e s s' \<Longrightarrow> breaks e s' s'' \<Longrightarrow> breaks e s s''"
  unfolding breaks_def
proof (elim exE conjE)
  fix n1 n2
  assume "ops s' = ops s @ n1" "page_breaks e False n1" "ops s'' = ops s' @ n2"
    "page_breaks e False n2"
  then show "\<exists>new. ops s'' = ops s @ new \<and> page_breaks e False new"
    by (intro exI[of _ "n1 @ n2"]) (simp add: page_breaks_append)
qed

lemma layout_wrapped_breaks:
  "fontSize s = 19 / 2 \<Longrightarrow> fontStyle s = normal \<Longrightarrow> breaks e s (layout_wrapped e ts s)"
proof (induction ts arbitrary: s)
  case Nil
  then show ?case by (simp add: breaks_refl)
next
  case (Cons t ts)
  let ?s' = "advance 5 (text_here t 15 False (page_break_if (yPosition s > pageHeight e - 15) s))"
  have st: "fontSize ?s' = 19 / 2" "fontStyle ?s' = normal"
    using Cons.prems by (simp_all add: prims)
  have step: "breaks e s ?s'"
    unfolding breaks_def using Cons.prems
    by (cases "yPosition s > pageHeight e - 15")
       (simp_all add: prims pobs del: eq_divide_eq_numeral1 divide_eq_eq_numeral1)
  show ?case using breaks_trans[OF step Cons.IH[OF st]] by simp
qed

lemma layout_line_breaks: "breaks e s (layout_line e l s)"
proof -
  let ?s1 = "page_break_if (yPosition s > pageHeight e - 15) s"
  show ?thesis
  proof (cases "trim l = []")
    case True
    then show ?thesis unfolding breaks_def
      by (cases "yPosition s > pageHeight e - 15") (simp_all add: layout_line_def Let_def prims pobs)
  next
    case nonblank: False
    show ?thesis
    proof (cases "is_section_header (trim l)")
      case True
      then show ?thesis unfolding breaks_def using nonblank
        by (cases "yPosition s > pageHeight e - 15")
           (simp_all add: layout_line_def Let_def prims pobs)
    next
      case False
      let ?s2 = "setTextColor 50 50 50 (setFont normal (setFontSize (19 / 2) ?s1))"
      have st: "fontSize ?s2 = 19 / 2" "fontStyle ?s2 = normal"
        by (simp_all add: setFontSize_def setFont_def setTextColor_def)
      have a: "breaks e s ?s2" unfolding breaks_def
        by (cases "yPosition s > pageHeight e - 15") (simp_all add: prims pobs)
      have b: "breaks e ?s2 (layout_wrapped e (splitTextToSize e (trim l) (pageWidth e - 30)) ?s2)"
        by (rule layout_wrapped_breaks[OF st])
      have c: "breaks e (layout_wrapped e (splitTextToSize e (trim l) (pageWidth e - 30)) ?s2)
                 (layout_line e l s)"
        using nonblank False by (intro breaks_refl) (simp add: layout_line_def Let_def advance_def)
      show ?thesis by (rule breaks_trans[OF breaks_trans[OF a b] c])
    qed
  qed
qed

lemma fold_layout_line_breaks: "breaks e s (fold (layout_line e) ls s)"
proof (induction ls arbitrary: s)
  case Nil
  then show ?case by (simp add: breaks_refl)
next
  case (Cons l ls)
  show ?case using breaks_trans[OF layout_line_breaks[of e s l] Cons.IH[of "layout_line e l s"]]
    by simp
qed

lemma layout_insights_breaks: "breaks e s (layout_insights e t s)"
  unfolding layout_insights_def by (rule fold_layout_line_breaks)

lemma place_image_breaks: "breaks e s (place_image e cv s)"
  unfolding breaks_def
  by (cases "yPosition s + min (imgHeight_of cv (pageWidth e - 30)) 120 > pageHeight e - 50")
     (simp_all add: place_image_def Let_def prims pobs)

lemma insights_heading_breaks: "breaks e s (insights_heading e s)"
  unfolding breaks_def by (simp add: insights_heading_def prims pobs)

lemma separator_breaks: "breaks e s (separator e s)"
  unfolding breaks_def by (simp add: separator_def Let_def prims pobs)

lemma chart_heading_breaks: "breaks e s (chart_heading e t s)"
  unfolding breaks_def
  by (cases "yPosition s > pageHeight e - 120") (simp_all add: chart_heading_def Let_def prims pobs)

lemma title_block_breaks: "fontStyle s = normal \<Longrightarrow> breaks e s (title_block e df dt tab s)"
  unfolding breaks_def by (simp add: title_block_def Let_def prims pobs)

lemma capture_block_breaks: "breaks e s (state_of (capture_block e ch s))"
proof (cases "captureResult ch")
  case (CaptureThrows err)
  then show ?thesis
    by (simp add: capture_block_def Let_def case_prod_beta breaks_refl frames)
next
  case (Captured cv)
  define s1 where "s1 = snd (hide_export_buttons ch s)"
  define s2 where "s2 = restore_hidden (fst (hide_export_buttons ch s)) s1"
  define s3 where "s3 = place_image e cv s2"
  define s4 where "s4 = insights_heading e s3"
  define s5 where "s5 = snd (generateAIInsights (insightsResponse ch) s4)"
  define s6 where "s6 = layout_insights e (fst (generateAIInsights (insightsResponse ch) s4)) s5"
  have cb: "state_of (capture_block e ch s) = separator e s6"
    using Captured
    by (simp add: capture_block_def Let_def case_prod_beta s1_def s2_def s3_def s4_def s5_def s6_def)
  have a2: "breaks e s s2" by (rule breaks_refl) (simp add: s2_def s1_def frames)
  have a3: "breaks e s2 s3" unfolding s3_def by (rule place_image_breaks)
  have a4: "breaks e s3 s4" unfolding s4_def by (rule insights_heading_breaks)
  have a5: "breaks e s4 s5" unfolding s5_def by (rule breaks_refl) (simp add: generateAIInsights_fields)
  have a6: "breaks e s5 s6" unfolding s6_def by (rule layout_insights_breaks)
  have a7: "breaks e s6 (separator e s6)" by (rule separator_breaks)
  have "breaks e s (separator e s6)"
    by (rule breaks_trans[OF breaks_trans[OF breaks_trans[OF breaks_trans[OF
          breaks_trans[OF a2 a3] a4] a5] a6] a7])
  then show ?thesis using cb by simp
qed

lemma process_chart_breaks: "breaks e s (process_chart e ch s)"
proof (cases "selected (processedCharts s) [ch] = []")
  case True
  then show ?thesis by (simp add: process_chart_skip breaks_refl)
next
  case False
  then obtain parent s3 where t: "chartParent ch = Some parent"
    "selected (processedCharts s) [ch] = [ch]"
    "s3 = state_of (capture_block e ch (chart_heading e (chart_title ch)
            (s\<lparr>processedCharts := processedCharts s @ [parent]\<rparr>)))"
    "process_chart e ch s =
       (case captureResult ch of
          Captured cv \<Rightarrow> s3
        | CaptureThrows err \<Rightarrow> console_error ''Failed to capture chart:'' err s3)"
    by (rule process_chart_take)
  let ?s1 = "s\<lparr>processedCharts := processedCharts s @ [parent]\<rparr>"
  have a1: "breaks e s ?s1" by (rule breaks_refl) simp
  have a2: "breaks e ?s1 (chart_heading e (chart_title ch) ?s1)" by (rule chart_heading_breaks)
  have a3: "breaks e (chart_heading e (chart_title ch) ?s1) s3"
    unfolding t(3) by (rule capture_block_breaks)
  have a4: "breaks e s3 (process_chart e ch s)"
    by (rule breaks_refl) (simp add: t(4) console_error_def split: capture.splits)
  show ?thesis by (rule breaks_trans[OF breaks_trans[OF breaks_trans[OF a1 a2] a3] a4])
qed

lemma fold_process_chart_breaks: "breaks e s (fold (process_chart e) cs s)"
proof (induction cs arbitrary: s)
  case Nil
  then show ?case by (simp add: breaks_refl)
next
  case (Cons ch cs)
  show ?case
    using breaks_trans[OF process_chart_breaks[of e s ch] Cons.IH[of "process_chart e ch s"]]
    by simp
qed

lemma charts_done_breaks: "page_breaks e False (ops (charts_done e df dt pg cs disp))"
proof -
  let ?s1 = "title_block e df dt (tab_name pg) (panel_init disp)"
  have a1: "breaks e (panel_init disp) ?s1"
    by (rule title_block_breaks) (simp add: panel_init_def)
  have "breaks e (panel_init disp) (charts_done e df dt pg cs disp)"
    unfolding charts_done_def by (rule breaks_trans[OF a1 fold_process_chart_breaks])
  then show ?thesis by (auto simp: breaks_def panel_init_def)
qed

subsection \<open>Down the page\<close>

lemma top_down_append:
  "top_down low (xs @ ys) =
     (top_down low xs \<and> top_down (if xs = [] then low else drawn_at (last xs)) ys)"
  by (induction xs arbitrary: low) auto

lemma descends_refl: "ops s' = ops s \<Longrightarrow> yPosition s \<le> yPosition s' \<Longrightarrow> descends s s'"
  by (auto simp: descends_def)

lemma descends_trans: "descends s s' \<Longrightarrow> descends s' s'' \<Longrightarrow> descends s s''"
  unfolding descends_def
proof (elim exE conjE)
  fix n1 n2
  assume 1: "ops s' = ops s @ n1"
    and 2: "\<forall>low. low + 3 \<le> yPosition s \<longrightarrow>
              top_down low n1 \<and> (if n1 = [] then low else drawn_at (last n1)) + 3 \<le> yPosition s'"
    and 3: "ops s'' = ops s' @ n2"
    and 4: "\<forall>low. low + 3 \<le> yPosition s' \<longrightarrow>
              top_down low n2 \<and> (if n2 = [] then low else drawn_at (last n2)) + 3 \<le> yPosition s''"
  show "\<exists>new. ops s'' = ops s @ new \<and>
          (\<forall>low. low + 3 \<le> yPosition s \<longrightarrow>
             top_down low new \<and> (if new = [] then low else drawn_at (last new)) + 3 \<le> yPosition s'')"
  proof (intro exI[of _ "n1 @ n2"] conjI allI impI)
    show "ops s'' = ops s @ n1 @ n2" using 1 3 by simp
  next
    fix low assume l: "low + 3 \<le> yPosition s"
    let ?m = "if n1 = [] then low else drawn_at (last n1)"
    have a: "top_down low n1" "?m + 3 \<le> yPosition s'" using 2 l by blast+
    have b: "top_down ?m n2" "(if n2 = [] then ?m else drawn_at (last n2)) + 3 \<le> yPosition s''"
      using 4 a(2) by blast+
    show "top_down low (n1 @ n2)" using a(1) b(1) by (simp add: top_down_append)
    show "(if n1 @ n2 = [] then low else drawn_at (last (n1 @ n2))) + 3 \<le> yPosition s''"
      using b(2) by (simp split: if_splits)
  qed
qed

lemma layout_wrapped_descends: "descends s (layout_wrapped e ts s)"
proof (induction ts arbitrary: s)
  case Nil
  then show ?case by (simp add: descends_refl)
next
  case (Cons t ts)
  let ?s' = "advance 5 (text_here t 15 False (page_break_if (yPosition s > pageHeight e - 15) s))"
  have step: "descends s ?s'"
    unfolding descends_def
    by (cases "yPosition s > pageHeight e - 15") (simp_all add: prims)
  show ?case using descends_trans[OF step Cons.IH[of ?s']] by simp
qed

lemma layout_line_descends: "descends s (layout_line e l s)"
proof -
  let ?s1 = "page_break_if (yPosition s > pageHeight e - 15) s"
  show ?thesis
  proof (cases "trim l = []")
    case True
    then show ?thesis unfolding descends_def
      by (cases "yPosition s > pageHeight e - 15") (simp_all add: layout_line_def Let_def prims)
  next
    case nonblank: False
    show ?thesis
    proof (cases "is_section_header (trim l)")
      case True
      then show ?thesis unfolding descends_def using nonblank
        by (cases "yPosition s > pageHeight e - 15") (simp_all add: layout_line_def Let_def prims)
    next
      case False
      let ?s2 = "setTextColor 50 50 50 (setFont normal (setFontSize (19 / 2) ?s1))"
      let ?s3 = "layout_wrapped e (splitTextToSize e (trim l) (pageWidth e - 30)) ?s2"
      have a: "descends s ?s2" unfolding descends_def
        by (cases "yPosition s > pageHeight e - 15") (simp_all add: prims)
      have b: "descends ?s2 ?s3" by (rule layout_wrapped_descends)
      have c: "descends ?s3 (advance 3 ?s3)"
        by (rule descends_refl) (simp_all add: advance_def)
      have d: "layout_line e l s = advance 3 ?s3"
        using nonblank False by (simp add: layout_line_def Let_def)
      show ?thesis unfolding d by (rule descends_trans[OF descends_trans[OF a b] c])
    qed
  qed
qed

lemma fold_layout_line_descends: "descends s (fold (layout_line e) ls s)"
proof (induction ls arbitrary: s)
  case Nil
  then show ?case by (simp add: descends_refl)
next
  case (Cons l ls)
  show ?case
    using descends_trans[OF layout_line_descends[of s e l] Cons.IH[of "layout_line e l s"]]
    by simp
qed

lemma layout_insights_descends: "descends s (layout_insights e t s)"
  unfolding layout_insights_def by (rule fold_layout_line_descends)

lemma imgHeight_of_nonneg: "0 \<le> w \<Longrightarrow> 0 \<le> imgHeight_of cv w"
  by (simp add: imgHeight_of_def)

lemma place_image_descends:
  assumes "30 \<le> pageWidth e"
  shows "descends s (place_image e cv s)"
proof -
  have h: "0 \<le> min (imgHeight_of cv (pageWidth e - 30)) 120"
    using imgHeight_of_nonneg[of "pageWidth e - 30" cv] assms by simp
  show ?thesis
    unfolding descends_def using h
    by (cases "yPosition s + min (imgHeight_of cv (pageWidth e - 30)) 120 > pageHeight e - 50")
       (simp_all add: place_image_def Let_def prims)
qed

lemma insights_heading_descends: "descends s (insights_heading e s)"
  unfolding descends_def by (simp add: insights_heading_def prims)

lemma separator_descends: "descends s (separator e s)"
  unfolding descends_def by (simp add: separator_def Let_def prims)

lemma chart_heading_descends: "descends s (chart_heading e t s)"
  unfolding descends_def
  by (cases "yPosition s > pageHeight e - 120") (simp_all add: chart_heading_def Let_def prims)

lemma title_block_descends: "descends s (title_block e df dt tab s)"
  unfolding descends_def by (simp add: title_block_def Let_def prims)


lemma yPosition_kept:
  "yPosition (snd (hide_export_buttons ch s)) = yPosition s"
  "yPosition (restore_hidden hs s) = yPosition s"
  by (simp_all add: hide_export_buttons_def restore_hidden_def case_prod_beta)

lemma capture_block_descends:
  assumes "30 \<le> pageWidth e"
  shows "descends s (state_of (capture_block e ch s))"
proof (cases "captureResult ch")
  case (CaptureThrows err)
  then have "state_of (capture_block e ch s) = snd (hide_export_buttons ch s)"
    by (simp add: capture_block_def Let_def case_prod_beta)
  moreover have "descends s (snd (hide_export_buttons ch s))"
    by (rule descends_refl) (simp_all add: frames yPosition_kept)
  ultimately show ?thesis by simp
next
  case (Captured cv)
  define s1 where "s1 = snd (hide_export_buttons ch s)"
  define s2 where "s2 = restore_hidden (fst (hide_export_buttons ch s)) s1"
  define s3 where "s3 = place_image e cv s2"
  define s4 where "s4 = insights_heading e s3"
  define s5 where "s5 = snd (generateAIInsights (insightsResponse ch) s4)"
  define s6 where "s6 = layout_insights e (fst (generateAIInsights (insightsResponse ch) s4)) s5"
  have cb: "state_of (capture_block e ch s) = separator e s6"
    using Captured
    by (simp add: capture_block_def Let_def case_prod_beta s1_def s2_def s3_def s4_def s5_def s6_def)
  have a2: "descends s s2" by (rule descends_refl) (simp_all add: s2_def s1_def frames yPosition_kept)
  have a3: "descends s2 s3" unfolding s3_def by (rule place_image_descends[OF assms])
  have a4: "descends s3 s4" unfolding s4_def by (rule insights_heading_descends)
  have a5: "descends s4 s5" unfolding s5_def
    by (rule descends_refl) (simp_all add: generateAIInsights_fields yPosition_kept)
  have a6: "descends s5 s6" unfolding s6_def by (rule layout_insights_descends)
  have a7: "descends s6 (separator e s6)" by (rule separator_descends)
  have "descends s (separator e s6)"
    by (rule descends_trans[OF descends_trans[OF descends_trans[OF descends_trans[OF
          descends_trans[OF a2 a3] a4] a5] a6] a7])
  then show ?thesis using cb by simp
qed

lemma process_chart_descends:
  assumes "30 \<le> pageWidth e"
  shows "descends s (process_chart e ch s)"
proof (cases "selected (processedCharts s) [ch] = []")
  case True
  then show ?thesis by (simp add: process_chart_skip descends_refl)
next
  case False
  then obtain parent s3 where t: "chartParent ch = Some parent"
    "selected (processedCharts s) [ch] = [ch]"
    "s3 = state_of (capture_block e ch (chart_heading e (chart_title ch)
            (s\<lparr>processedCharts := processedCharts s @ [parent]\<rparr>)))"
    "process_chart e ch s =
       (case captureResult ch of
          Captured cv \<Rightarrow> s3
        | CaptureThrows err \<Rightarrow> console_error ''Failed to capture chart:'' err s3)"
    by (rule process_chart_take)
  let ?s1 = "s\<lparr>processedCharts := processedCharts s @ [parent]\<rparr>"
  have a1: "descends s ?s1" by (rule descends_refl) simp_all
  have a2: "descends ?s1 (chart_heading e (chart_title ch) ?s1)" by (rule chart_heading_descends)
  have a3: "descends (chart_heading e (chart_title ch) ?s1) s3"
    unfolding t(3) by (rule capture_block_descends[OF assms])
  have a4: "descends s3 (process_chart e ch s)"
    by (rule descends_refl) (simp_all add: t(4) console_error_def split: capture.splits)
  show ?thesis by (rule descends_trans[OF descends_trans[OF descends_trans[OF a1 a2] a3] a4])
qed

lemma fold_process_chart_descends:
  assumes "30 \<le> pageWidth e"
  shows "descends s (fold (process_chart e) cs s)"
proof (induction cs arbitrary: s)
  case Nil
  then show ?case by (simp add: descends_refl)
next
  case (Cons ch cs)
  show ?case
    using descends_trans[OF process_chart_descends[OF assms, of s ch]
        Cons.IH[of "process_chart e ch s"]]
    by simp
qed

lemma charts_done_descends:
  assumes "30 \<le> pageWidth e"
  shows "top_down 0 (ops (charts_done e df dt pg cs disp))"
proof -
  let ?s1 = "title_block e df dt (tab_name pg) (panel_init disp)"
  have "descends (panel_init disp) (charts_done e df dt pg cs disp)"
    unfolding charts_done_def
    by (rule descends_trans[OF title_block_descends fold_process_chart_descends[OF assms]])
  then show ?thesis by (auto simp: descends_def panel_init_def)
qed


section \<open>The panel export that takes no chart\<close>

lemma fold_process_chart_none:
  "selected (processedCharts s) cs = [] \<Longrightarrow> fold (process_chart e) cs s = s"
proof (induction cs arbitrary: s)
  case Nil
  then show ?case by simp
next
  case (Cons ch cs)
  have one: "selected (processedCharts s) [ch] = []"
    using Cons.prems by (auto split: option.splits if_splits)
  then have "process_chart e ch s = s" by (rule process_chart_skip)
  moreover have "selected (processedCharts s) cs = []"
    using Cons.prems by (auto split: option.splits if_splits)
  ultimately show ?case using Cons.IH by simp
qed

lemma exportCurrentPanel_alerts:
  "alerts (exportCurrentPanel e df dt (pg\<lparr>activeContainer := Some cs\<rparr>) disp) =
     (case saveThrows e of
        None \<Rightarrow> []
      | Some err \<Rightarrow> [''Failed to export report. Please try again.''])"
  by (simp add: exportCurrentPanel_def Let_def pdf_save_def console_error_def
      fold_process_chart_frame title_block_frame panel_init_def split: option.splits)

lemma exportCurrentPanel_no_chart:
  assumes "selected [] cs = []"
  shows "ops (exportCurrentPanel e df dt (pg\<lparr>activeContainer := Some cs\<rparr>) disp) =
           ops (title_block e df dt (tab_name pg) (panel_init disp))"
proof -
  let ?s1 = "title_block e df dt (tab_name pg) (panel_init disp)"
  have "processedCharts ?s1 = []" by (simp add: title_block_frame panel_init_def)
  then have "fold (process_chart e) cs ?s1 = ?s1"
    using assms by (simp add: fold_process_chart_none)
  then show ?thesis by (simp add: exportCurrentPanel_some(1) charts_done_def)
qed

section \<open>The exports on the concrete inputs\<close>

lemmas eval_defs = Let_def a4_def all_visible_def
      process_chart_def chart_heading_def capture_block_def hide_export_buttons_def
      hide_button_def restore_hidden_def restore_button_def place_image_def imgHeight_of_def
      insights_heading_def generateAIInsights_def layout_insights_def layout_line_def
      clean_insights_def remove_asterisks_def is_section_header_def no_wrap_def separator_def
      prims chart_title_def or_else_def trim_def is_space_def newline_def

lemma tab_overview: "tab_name overview_page = ''Overview''"
  by (simp add: tab_name_def overview_page_def or_else_def trim_def is_space_def)

lemma title_step:
  "title_block a4 None None ''Overview'' (panel_init all_visible) = after_title"
  by (simp add: after_title_def title_block_def Let_def a4_def panel_init_def prims truthy_def)

lemma volume_step: "process_chart a4 volume_chart after_title = after_volume"
  by (simp add: after_title_def after_volume_def eval_defs volume_chart_def panel_init_def)

lemma sentiment_step: "process_chart a4 sentiment_chart after_volume = after_sentiment"
  by (simp add: after_sentiment_def after_volume_def eval_defs sentiment_chart_def panel_init_def)

lemma overview_done:
  "charts_done a4 None None overview_page [volume_chart, sentiment_chart] all_visible =
     after_sentiment"
  by (simp add: charts_done_def tab_overview title_step volume_step sentiment_step)

lemma dated_title_step:
  "title_block a4 (Some ''2024-01-01'') (Some ''2024-12-31'') ''Overview'' (panel_init all_visible) =
     dated_title"
  by (simp add: dated_title_def title_block_def Let_def a4_def panel_init_def prims truthy_def
      or_else_def)

lemma dated_volume_step: "process_chart a4 volume_chart dated_title = dated_volume"
  by (simp add: dated_title_def dated_volume_def eval_defs volume_chart_def panel_init_def)

lemma dated_sentiment_step: "process_chart a4 sentiment_chart dated_volume = dated_sentiment"
  by (simp add: dated_sentiment_def dated_volume_def eval_defs sentiment_chart_def panel_init_def)

lemma dated_done:
  "charts_done a4 (Some ''2024-01-01'') (Some ''2024-12-31'') overview_page
     [volume_chart, sentiment_chart] all_visible = dated_sentiment"
  by (simp add: charts_done_def tab_overview dated_title_step dated_volume_step
      dated_sentiment_step)

lemma exportCurrentPanel_charts:
  assumes "activeContainer pg = Some cs"
  shows "ops (exportCurrentPanel e df dt pg disp) = ops (charts_done e df dt pg cs disp)"
proof -
  have "pg\<lparr>activeContainer := Some cs\<rparr> = pg" using assms by (cases pg) simp
  then show ?thesis
    using exportCurrentPanel_some(1)[where pg=pg and cs=cs and e=e and df=df and dt=dt and disp=disp]
    by simp
qed

lemma overview_export_ops:
  "ops (exportCurrentPanel a4 None None overview_page all_visible) = ops after_sentiment"
proof -
  have "activeContainer overview_page = Some [volume_chart, sentiment_chart]"
    by (simp add: overview_page_def)
  then show ?thesis by (simp add: exportCurrentPanel_charts overview_done)
qed

lemma dated_export_ops:
  "ops (exportCurrentPanel a4 (Some ''2024-01-01'') (Some ''2024-12-31'') overview_page all_visible) =
     ops dated_sentiment"
proof -
  have "activeContainer overview_page = Some [volume_chart, sentiment_chart]"
    by (simp add: overview_page_def)
  then show ?thesis by (simp add: exportCurrentPanel_charts dated_done)
qed

lemma tab_trend: "tab_name trend_page = ''Overview''"
  by (simp add: tab_name_def trend_page_def or_else_def trim_def is_space_def)

lemma tab_empty: "tab_name empty_page = ''Overview''"
  by (simp add: tab_name_def empty_page_def or_else_def trim_def is_space_def)

lemma trend_step: "process_chart a4 trend_chart after_title = after_trend"
  by (simp add: after_title_def after_trend_def eval_defs trend_chart_def panel_init_def)

lemma trend_sentiment_step: "process_chart a4 sentiment_chart after_trend = trend_sentiment"
  by (simp add: trend_sentiment_def after_trend_def eval_defs sentiment_chart_def panel_init_def)

lemma trend_done:
  "charts_done a4 None None trend_page [trend_chart, sentiment_chart] all_visible =
     trend_sentiment"
  by (simp add: charts_done_def tab_trend title_step trend_step trend_sentiment_step)

lemma trend_export_ops:
  "ops (exportCurrentPanel a4 None None trend_page all_visible) = ops trend_sentiment"
proof -
  have "activeContainer trend_page = Some [trend_chart, sentiment_chart]"
    by (simp add: trend_page_def)
  then show ?thesis by (simp add: exportCurrentPanel_charts trend_done)
qed

lemma empty_page_export:
  "ops (exportCurrentPanel a4 None None empty_page all_visible) = ops after_title"
  "saved (exportCurrentPanel a4 None None empty_page all_visible) =
     Some ''AI_Regulation_Overview_2025-01-01.pdf''"
  "alerts (exportCurrentPanel a4 None None empty_page all_visible) = []"
proof -
  have p: "empty_page\<lparr>activeContainer := Some []\<rparr> = empty_page" by (simp add: empty_page_def)
  have s: "saveThrows a4 = None" "isoToday a4 = ''2025-01-01''" by (simp_all add: a4_def)
  have r: "replace_spaces ''Overview'' = ''Overview''" by (simp add: is_space_def)
  have "selected [] [] = ([] :: chart list)" by simp
  then have "ops (exportCurrentPanel a4 None None (empty_page\<lparr>activeContainer := Some []\<rparr>)
               all_visible) =
             ops (title_block a4 None None (tab_name empty_page) (panel_init all_visible))"
    by (rule exportCurrentPanel_no_chart)
  then show "ops (exportCurrentPanel a4 None None empty_page all_visible) = ops after_title"
    unfolding p tab_empty title_step .
  have "saved (exportCurrentPanel a4 None None (empty_page\<lparr>activeContainer := Some []\<rparr>)
          all_visible) =
     (case saveThrows a4 of
        None \<Rightarrow> Some (''AI_Regulation_'' @ replace_spaces (tab_name empty_page) @ ''_'' @
                      isoToday a4 @ ''.pdf'')
      | Some err \<Rightarrow> None)"
    by (rule exportCurrentPanel_some(3))
  then show "saved (exportCurrentPanel a4 None None empty_page all_visible) =
     Some ''AI_Regulation_Overview_2025-01-01.pdf''"
    unfolding p s tab_empty r by simp
  have "alerts (exportCurrentPanel a4 None None (empty_page\<lparr>activeContainer := Some []\<rparr>)
          all_visible) =
     (case saveThrows a4 of
        None \<Rightarrow> []
      | Some err \<Rightarrow> [''Failed to export report. Please try again.''])"
    by (rule exportCurrentPanel_alerts)
  then show "alerts (exportCurrentPanel a4 None None empty_page all_visible) = []"
    unfolding p s by simp
qed



section \<open>The layout does not depend on the clock or the page's styles\<close>

lemma run_view_simps:
  "run_view s1 = run_view s2 \<longleftrightarrow>
     map geometry (ops s1) = map geometry (ops s2) \<and> fontSize s1 = fontSize s2 \<and>
     fontStyle s1 = fontStyle s2 \<and> textColor s1 = textColor s2 \<and> yPosition s1 = yPosition s2"
  by (auto simp: run_view_def)

lemma layout_wrapped_view:
  "pageHeight e1 = pageHeight e2 \<Longrightarrow> run_view s1 = run_view s2 \<Longrightarrow>
   run_view (layout_wrapped e1 ts s1) = run_view (layout_wrapped e2 ts s2)"
proof (induction ts arbitrary: s1 s2)
  case Nil
  then show ?case by simp
next
  case (Cons t ts)
  have "run_view (advance 5 (text_here t 15 False (page_break_if (yPosition s1 > pageHeight e1 - 15) s1))) =
        run_view (advance 5 (text_here t 15 False (page_break_if (yPosition s2 > pageHeight e2 - 15) s2)))"
    using Cons.prems by (simp add: run_view_simps prims)
  then show ?case using Cons.IH Cons.prems(1) by simp
qed

lemma layout_line_view:
  assumes "pageHeight e1 = pageHeight e2" "pageWidth e1 = pageWidth e2"
    "splitTextToSize e1 = splitTextToSize e2" "run_view s1 = run_view s2"
  shows "run_view (layout_line e1 l s1) = run_view (layout_line e2 l s2)"
proof -
  let ?a = "page_break_if (yPosition s1 > pageHeight e1 - 15) s1"
  let ?b = "page_break_if (yPosition s2 > pageHeight e2 - 15) s2"
  have ab: "run_view ?a = run_view ?b" using assms by (simp add: run_view_simps prims)
  show ?thesis
  proof (cases "trim l = []")
    case True
    then show ?thesis using ab by (simp add: layout_line_def Let_def run_view_simps advance_def)
  next
    case nb: False
    show ?thesis
    proof (cases "is_section_header (trim l)")
      case True
      then show ?thesis using ab nb
        by (simp add: layout_line_def Let_def run_view_simps advance_def text_here_def
            text_at_def emit_def setFontSize_def setFont_def setTextColor_def)
    next
      case False
      let ?a2 = "setTextColor 50 50 50 (setFont normal (setFontSize (19 / 2) ?a))"
      let ?b2 = "setTextColor 50 50 50 (setFont normal (setFontSize (19 / 2) ?b))"
      have "run_view ?a2 = run_view ?b2" using ab
        by (simp add: run_view_simps setFontSize_def setFont_def setTextColor_def)
      then have "run_view (layout_wrapped e1 (splitTextToSize e1 (trim l) (pageWidth e1 - 30)) ?a2) =
                 run_view (layout_wrapped e2 (splitTextToSize e2 (trim l) (pageWidth e2 - 30)) ?b2)"
        using layout_wrapped_view[OF assms(1)] assms(2,3) by simp
      then show ?thesis using nb False
        by (simp add: layout_line_def Let_def run_view_simps advance_def)
    qed
  qed
qed

lemma fold_layout_line_view:
  assumes "pageHeight e1 = pageHeight e2" "pageWidth e1 = pageWidth e2"
    "splitTextToSize e1 = splitTextToSize e2"
  shows "run_view s1 = run_view s2 \<Longrightarrow>
    run_view (fold (layout_line e1) ls s1) = run_view (fold (layout_line e2) ls s2)"
proof (induction ls arbitrary: s1 s2)
  case Nil
  then show ?case by simp
next
  case (Cons l ls)
  show ?case using Cons.IH[OF layout_line_view[OF assms Cons.prems]] by simp
qed

lemma layout_insights_view:
  assumes "pageHeight e1 = pageHeight e2" "pageWidth e1 = pageWidth e2"
    "splitTextToSize e1 = splitTextToSize e2" "run_view s1 = run_view s2"
  shows "run_view (layout_insights e1 t s1) = run_view (layout_insights e2 t s2)"
  unfolding layout_insights_def by (rule fold_layout_line_view[OF assms])

lemma generateAIInsights_view:
  "run_view (snd (generateAIInsights r s)) = run_view s"
  "fst (generateAIInsights r s1) = fst (generateAIInsights r s2)"
  by (cases r; simp add: generateAIInsights_def run_view_def console_error_def)+

lemma place_image_view:
  "pageHeight e1 = pageHeight e2 \<Longrightarrow> pageWidth e1 = pageWidth e2 \<Longrightarrow> run_view s1 = run_view s2 \<Longrightarrow>
   run_view (place_image e1 cv s1) = run_view (place_image e2 cv s2)"
  by (simp add: place_image_def Let_def run_view_simps prims)

lemma insights_heading_view:
  "pageWidth e1 = pageWidth e2 \<Longrightarrow> run_view s1 = run_view s2 \<Longrightarrow>
   run_view (insights_heading e1 s1) = run_view (insights_heading e2 s2)"
  by (simp add: insights_heading_def run_view_simps prims)

lemma separator_view:
  "pageWidth e1 = pageWidth e2 \<Longrightarrow> run_view s1 = run_view s2 \<Longrightarrow>
   run_view (separator e1 s1) = run_view (separator e2 s2)"
  by (simp add: separator_def Let_def run_view_simps prims)

lemma chart_heading_view:
  "pageHeight e1 = pageHeight e2 \<Longrightarrow> run_view s1 = run_view s2 \<Longrightarrow>
   run_view (chart_heading e1 t s1) = run_view (chart_heading e2 t s2)"
  by (simp add: chart_heading_def Let_def run_view_simps prims)

lemma hide_restore_view:
  "run_view (snd (hide_export_buttons ch s)) = run_view s"
  "run_view (restore_hidden hs s) = run_view s"
  by (simp_all add: hide_export_buttons_def restore_hidden_def case_prod_beta run_view_def)

lemma capture_block_view:
  assumes "pageHeight e1 = pageHeight e2" "pageWidth e1 = pageWidth e2"
    "splitTextToSize e1 = splitTextToSize e2" "run_view s1 = run_view s2"
  shows "run_view (state_of (capture_block e1 ch s1)) = run_view (state_of (capture_block e2 ch s2))"
proof (cases "captureResult ch")
  case (CaptureThrows err)
  then show ?thesis using assms(4)
    by (simp add: capture_block_def Let_def case_prod_beta hide_restore_view)
next
  case (Captured cv)
  define a2 where "a2 = restore_hidden (fst (hide_export_buttons ch s1)) (snd (hide_export_buttons ch s1))"
  define b2 where "b2 = restore_hidden (fst (hide_export_buttons ch s2)) (snd (hide_export_buttons ch s2))"
  define a4 where "a4 = insights_heading e1 (place_image e1 cv a2)"
  define b4 where "b4 = insights_heading e2 (place_image e2 cv b2)"
  define r where "r = insightsResponse ch"
  have v2: "run_view a2 = run_view b2"
    using assms(4) by (simp add: a2_def b2_def hide_restore_view)
  have v4: "run_view a4 = run_view b4"
    unfolding a4_def b4_def
    by (rule insights_heading_view[OF assms(2) place_image_view[OF assms(1,2) v2]])
  have v5: "run_view (snd (generateAIInsights r a4)) = run_view (snd (generateAIInsights r b4))"
    using v4 by (simp add: generateAIInsights_view)
  have t: "fst (generateAIInsights r a4) = fst (generateAIInsights r b4)"
    by (rule generateAIInsights_view)
  have v6: "run_view (layout_insights e1 (fst (generateAIInsights r a4)) (snd (generateAIInsights r a4))) =
            run_view (layout_insights e2 (fst (generateAIInsights r b4)) (snd (generateAIInsights r b4)))"
    using layout_insights_view[OF assms(1,2,3) v5] t by simp
  have "state_of (capture_block e1 ch s1) =
      separator e1 (layout_insights e1 (fst (generateAIInsights r a4)) (snd (generateAIInsights r a4)))"
    using Captured by (simp add: capture_block_def Let_def case_prod_beta a2_def a4_def r_def)
  moreover have "state_of (capture_block e2 ch s2) =
      separator e2 (layout_insights e2 (fst (generateAIInsights r b4)) (snd (generateAIInsights r b4)))"
    using Captured by (simp add: capture_block_def Let_def case_prod_beta b2_def b4_def r_def)
  ultimately show ?thesis using separator_view[OF assms(2) v6] by simp
qed

lemma process_chart_view:
  assumes "pageHeight e1 = pageHeight e2" "pageWidth e1 = pageWidth e2"
    "splitTextToSize e1 = splitTextToSize e2" "run_view s1 = run_view s2"
    "processedCharts s1 = processedCharts s2"
  shows "run_view (process_chart e1 ch s1) = run_view (process_chart e2 ch s2) \<and>
         processedCharts (process_chart e1 ch s1) = processedCharts (process_chart e2 ch s2)"
proof (cases "selected (processedCharts s1) [ch] = []")
  case True
  then show ?thesis using assms(4,5) by (simp add: process_chart_skip)
next
  case False
  obtain p1 a3 where a: "chartParent ch = Some p1"
    "a3 = state_of (capture_block e1 ch (chart_heading e1 (chart_title ch)
            (s1\<lparr>processedCharts := processedCharts s1 @ [p1]\<rparr>)))"
    "process_chart e1 ch s1 =
       (case captureResult ch of
          Captured cv \<Rightarrow> a3
        | CaptureThrows err \<Rightarrow> console_error ''Failed to capture chart:'' err a3)"
    using process_chart_take[OF False] by metis
  have False2: "selected (processedCharts s2) [ch] \<noteq> []" using False assms(5) by simp
  obtain p2 b3 where b: "chartParent ch = Some p2"
    "b3 = state_of (capture_block e2 ch (chart_heading e2 (chart_title ch)
            (s2\<lparr>processedCharts := processedCharts s2 @ [p2]\<rparr>)))"
    "process_chart e2 ch s2 =
       (case captureResult ch of
          Captured cv \<Rightarrow> b3
        | CaptureThrows err \<Rightarrow> console_error ''Failed to capture chart:'' err b3)"
    using process_chart_take[OF False2] by metis
  have p: "p1 = p2" using a(1) b(1) by simp
  let ?a1 = "s1\<lparr>processedCharts := processedCharts s1 @ [p1]\<rparr>"
  let ?b1 = "s2\<lparr>processedCharts := processedCharts s2 @ [p2]\<rparr>"
  have v1: "run_view ?a1 = run_view ?b1" using assms(4) by (simp add: run_view_def)
  have v3: "run_view a3 = run_view b3"
    unfolding a(2) b(2)
    by (rule capture_block_view[OF assms(1,2,3) chart_heading_view[OF assms(1) v1]])
  have c3: "processedCharts a3 = processedCharts b3"
    using assms(5) p by (simp add: a(2) b(2) capture_block_fields frames)
  show ?thesis using v3 c3
    by (simp add: a(3) b(3) run_view_def console_error_def split: capture.splits)
qed

lemma fold_process_chart_view:
  assumes "pageHeight e1 = pageHeight e2" "pageWidth e1 = pageWidth e2"
    "splitTextToSize e1 = splitTextToSize e2"
  shows "run_view s1 = run_view s2 \<Longrightarrow> processedCharts s1 = processedCharts s2 \<Longrightarrow>
    run_view (fold (process_chart e1) cs s1) = run_view (fold (process_chart e2) cs s2)"
proof (induction cs arbitrary: s1 s2)
  case Nil
  then show ?case by simp
next
  case (Cons ch cs)
  have "run_view (process_chart e1 ch s1) = run_view (process_chart e2 ch s2)"
       "processedCharts (process_chart e1 ch s1) = processedCharts (process_chart e2 ch s2)"
    using process_chart_view[OF assms Cons.prems] by simp_all
  then show ?case using Cons.IH by simp
qed

lemma title_block_view:
  "pageWidth e1 = pageWidth e2 \<Longrightarrow> run_view s1 = run_view s2 \<Longrightarrow>
   run_view (title_block e1 df dt tab1 s1) = run_view (title_block e2 df dt tab2 s2)"
  by (simp add: title_block_def Let_def run_view_simps prims)

lemma charts_done_view:
  assumes "pageHeight e1 = pageHeight e2" "pageWidth e1 = pageWidth e2"
    "splitTextToSize e1 = splitTextToSize e2"
  shows "run_view (charts_done e1 df dt pg1 cs d1) = run_view (charts_done e2 df dt pg2 cs d2)"
proof -
  have i: "run_view (panel_init d1) = run_view (panel_init d2)"
    by (simp add: run_view_def panel_init_def)
  have p: "processedCharts (title_block e1 df dt (tab_name pg1) (panel_init d1)) =
           processedCharts (title_block e2 df dt (tab_name pg2) (panel_init d2))"
    by (simp add: title_block_frame panel_init_def)
  show ?thesis
    unfolding charts_done_def
    by (rule fold_process_chart_view[OF assms title_block_view[OF assms(2) i] p])
qed

lemma page_count_geometry: "page_count (map geometry ds) = page_count ds"
proof -
  have "\<And>d. (geometry d = AddPage) = (d = AddPage)" by (case_tac d) simp_all
  then show ?thesis by (simp add: page_count_def filter_map comp_def)
qed

lemma exportCurrentPanel_view:
  assumes "pageHeight e1 = pageHeight e2" "pageWidth e1 = pageWidth e2"
    "splitTextToSize e1 = splitTextToSize e2" "activeContainer pg1 = activeContainer pg2"
  shows "map geometry (ops (exportCurrentPanel e1 df dt pg1 d1)) =
         map geometry (ops (exportCurrentPanel e2 df dt pg2 d2))"
proof (cases "activeContainer pg1")
  case None
  then show ?thesis using assms(4) by (simp add: exportCurrentPanel_def Let_def panel_init_def)
next
  case (Some cs)
  then have "activeContainer pg2 = Some cs" using assms(4) by simp
  then show ?thesis using Some charts_done_view[OF assms(1,2,3), of df dt pg1 cs d1 pg2 d2]
    by (simp add: exportCurrentPanel_charts run_view_def)
qed

section \<open>The claims\<close>

subsection \<open>C1\<close>

text \<open>
  C1: a capture that throws is caught in the loop body and logged, and the loop goes on.
  Whatever the captures do, the panel export ends with its flag cleared, its document has
  the headings of all the charts the loop takes, in their order, and the images of those
  whose capture succeeded, and its console has the errors of the others. The report's
  document has, for the sections that are there and visible, in their order, the title of
  each captured one and the failure note of each other, and the images of the captured
  ones; its console has the errors.
\<close>

theorem capture_failure_is_not_fatal:
  "section_headings (ops (exportCurrentPanel e df dt (pg\<lparr>activeContainer := Some cs\<rparr>) disp)) =
     map chart_title (selected [] cs) \<and>
   images (ops (exportCurrentPanel e df dt (pg\<lparr>activeContainer := Some cs\<rparr>) disp)) =
     captured_canvases (map captureResult (selected [] cs)) \<and>
   capture_failures (console (exportCurrentPanel e df dt (pg\<lparr>activeContainer := Some cs\<rparr>) disp)) =
     capture_errors (map captureResult (selected [] cs)) \<and>
   isExporting (exportCurrentPanel e df dt (pg\<lparr>activeContainer := Some cs\<rparr>) disp) = False \<and>
   section_marks (ops (snd (generatePDFReport e g title items meta))) =
     List.map_filter (section_entry g) items \<and>
   images (ops (snd (generatePDFReport e g title items meta))) =
     captured_canvases (List.map_filter (section_capture g) items) \<and>
   logged_errors (console (snd (generatePDFReport e g title items meta))) =
     capture_errors (List.map_filter (section_capture g) items) @
       (case saveThrows e of None \<Rightarrow> [] | Some err \<Rightarrow> [err])"
proof -
  have "ops (panel_init disp) = []" by (simp add: panel_init_def)
  then have p: "section_headings (ops (charts_done e df dt pg cs disp)) = map chart_title (selected [] cs)"
    "images (ops (charts_done e df dt pg cs disp)) = captured_canvases (map captureResult (selected [] cs))"
    using appends_init[OF charts_done_appends[of e disp df dt pg cs]] by simp_all
  have "ops report_init = []" by (simp add: report_init_def)
  then have r: "section_marks (ops (report_done e g title items meta)) = List.map_filter (section_entry g) items"
    "images (ops (report_done e g title items meta)) = captured_canvases (List.map_filter (section_capture g) items)"
    using report_adds_init[OF report_done_adds[of e g title items meta]] by simp_all
  have l: "logged_errors (console (snd (generatePDFReport e g title items meta))) =
     capture_errors (List.map_filter (section_capture g) items) @
       (case saveThrows e of None \<Rightarrow> [] | Some err \<Rightarrow> [err])"
    by (simp add: generatePDFReport_done report_done_fields console_error_def split: option.splits)
  show ?thesis
    using p r l by (simp add: exportCurrentPanel_some charts_done_console generatePDFReport_ops)
qed

subsection \<open>C2\<close>

text \<open>
  C2, as the code has it. The claim that a line with a leading dash is drawn as a list
  item without the dash fails: for the text \<open>Header:\<close>, \<open>- bullet one\<close>, \<open>- bullet two\<close>
  on three lines, the export draws the header and then the two lines as ordinary
  paragraph text, each with its dash.
\<close>

theorem insight_bullets_drawn_raw:
  "ops (layout_insights a4 header_and_bullets (panel_init all_visible)) =
     [Text ''Header:'' 15 20 10 bold (60, 60, 60) False,
      Text ''- bullet one'' 15 26 (19 / 2) normal (50, 50, 50) False,
      Text ''- bullet two'' 15 34 (19 / 2) normal (50, 50, 50) False]"
  by (simp add: layout_insights_def layout_line_def a4_def header_and_bullets_def panel_init_def
      clean_insights_def remove_asterisks_def trim_def is_space_def newline_def
      is_section_header_def no_wrap_def prims Let_def)

text \<open>
  C2, amended: every asterisk is removed from the insight text and the text is trimmed;
  of its lines, each trimmed, a blank one draws nothing, one that ends in a colon, is
  shorter than 50 characters and has no full stop is drawn as a header with its colon,
  and any other, a line with a leading dash among them, is drawn unchanged as wrapped
  paragraph text. The drawing calls before the insight text stay as they are.
\<close>

theorem insight_text_blocks:
  "take (length (ops s)) (ops (layout_insights e t s)) = ops s \<and>
   blocks (drop (length (ops s)) (ops (layout_insights e t s))) =
     concat (map (line_blocks e) (split_lines (trim (filter (\<lambda>c. c \<noteq> CHR ''*'') t))))"
proof -
  obtain new where new: "ops (layout_insights e t s) = ops s @ new"
    "blocks new = concat (map (line_blocks e) (split_lines (clean_insights t)))"
    using layout_insights_ops by blast
  have "clean_insights t = trim (filter (\<lambda>c. c \<noteq> CHR ''*'') t)"
    using remove_bold_then_asterisks[of t] by (simp add: clean_insights_def remove_asterisks_def)
  then show ?thesis using new by simp
qed

subsection \<open>C3\<close>

text \<open>
  C3, as the code has it. The claim that no heading is left at the end of a page without
  its body fails. Exporting \<open>trend_page\<close> on A4 (297 mm), the heading of the second
  chart is drawn at 170 mm; its image, 120 mm high, would end at 300 mm, beyond the page's
  end, so the page is broken before the image: the heading is the last call of the first
  page and its image the first call of the second.
\<close>

theorem heading_left_alone_at_page_end:
  "take 3 (drop 9 (ops (exportCurrentPanel a4 None None trend_page all_visible))) =
     [Text ''Sentiment'' 15 170 14 bold (20, 184, 166) False,
      AddPage,
      Img \<lparr>width = 1000, height = 1000\<rparr> 15 20 180 120] \<and>
   pageHeight a4 < 170 + 10 + 120"
proof -
  have "pageHeight a4 < 170 + 10 + 120" by (simp add: a4_def)
  then show ?thesis by (simp add: trend_export_ops trend_sentiment_def panel_init_def)
qed

text \<open>
  C3, amended: in the document of the panel export, every chart heading is drawn no lower
  than 120 mm above the page's end, every image ends no lower than 50 mm above it and
  every line of insight text is drawn, whole, no lower than 15 mm above it, or else the
  block is the first drawing call after \<^verbatim>\<open>pdf.addPage()\<close>, at 20 mm; and, the page
  being at least 30 mm wide, no drawing call is higher on the page than the call before it
  unless \<^verbatim>\<open>pdf.addPage()\<close> came in between, so that the position goes back up only
  with a new page.
\<close>

theorem new_page_before_block:
  "page_breaks e False (ops (exportCurrentPanel e df dt pg disp)) \<and>
   (30 \<le> pageWidth e \<longrightarrow> top_down 0 (ops (exportCurrentPanel e df dt pg disp)))"
proof (cases "activeContainer pg")
  case None
  then show ?thesis by (simp add: exportCurrentPanel_def Let_def panel_init_def)
next
  case (Some cs)
  then show ?thesis
    by (simp add: exportCurrentPanel_charts charts_done_breaks charts_done_descends)
qed

theorem new_page_before_block_witness:
  "30 \<le> pageWidth a4 \<and>
   page_breaks a4 False (ops (exportCurrentPanel a4 None None trend_page all_visible)) \<and>
   top_down 0 (ops (exportCurrentPanel a4 None None trend_page all_visible)) \<and>
   take 2 (drop 10 (ops (exportCurrentPanel a4 None None trend_page all_visible))) =
     [AddPage, Img \<lparr>width = 1000, height = 1000\<rparr> 15 20 180 120] \<and>
   top_down 0 (filter (\<lambda>d. d \<noteq> AddPage)
     (ops (exportCurrentPanel a4 None None trend_page all_visible))) = False"
proof -
  have w: "30 \<le> pageWidth a4" by (simp add: a4_def)
  have o: "take 2 (drop 10 (ops (exportCurrentPanel a4 None None trend_page all_visible))) =
     [AddPage, Img \<lparr>width = 1000, height = 1000\<rparr> 15 20 180 120]"
    by (simp add: trend_export_ops trend_sentiment_def panel_init_def)
  have f: "top_down 0 (filter (\<lambda>d. d \<noteq> AddPage)
     (ops (exportCurrentPanel a4 None None trend_page all_visible))) = False"
    by (simp add: trend_export_ops trend_sentiment_def panel_init_def)
  show ?thesis
    using w o f new_page_before_block[of a4 None None trend_page all_visible]
    by simp
qed

subsection \<open>C4\<close>

text \<open>
  C4, as the code has it. The claim that no file is produced and a message is shown when
  no section is found fails for both exports. The report none of whose sections has an
  element on the page saves its file all the same and alerts nobody; the panel export
  whose visible container has no chart saves a file with the title block alone and alerts
  nobody.
\<close>

theorem file_saved_without_sections:
  "saved (snd (generatePDFReport a4 no_elements ''My Report'' [section_a, section_b] None)) =
     Some ''My_Report_2025-01-01.pdf'' \<and>
   alerts (snd (generatePDFReport a4 no_elements ''My Report'' [section_a, section_b] None)) = [] \<and>
   fst (generatePDFReport a4 no_elements ''My Report'' [section_a, section_b] None) = Success 0 \<and>
   activeContainer empty_page = Some [] \<and>
   saved (exportCurrentPanel a4 None None empty_page all_visible) =
     Some ''AI_Regulation_Overview_2025-01-01.pdf'' \<and>
   alerts (exportCurrentPanel a4 None None empty_page all_visible) = [] \<and>
   ops (exportCurrentPanel a4 None None empty_page all_visible) =
     [Text ''AI Regulation Analytics Report'' 105 20 20 normal (20, 184, 166) True,
      Text ''Overview'' 105 30 14 normal (0, 0, 0) True,
      Text ''Generated: 1/1/2025, 12:00:00 PM'' 105 38 10 normal (100, 100, 100) True]"
proof -
  have r: "saved (snd (generatePDFReport a4 no_elements ''My Report'' [section_a, section_b] None)) =
     Some ''My_Report_2025-01-01.pdf'' \<and>
   alerts (snd (generatePDFReport a4 no_elements ''My Report'' [section_a, section_b] None)) = [] \<and>
   fst (generatePDFReport a4 no_elements ''My Report'' [section_a, section_b] None) = Success 0"
    by (simp add: generatePDFReport_done report_done_fields report_filename_def a4_def
      section_capture_def no_elements_def is_space_def)
  have p: "ops after_title =
     [Text ''AI Regulation Analytics Report'' 105 20 20 normal (20, 184, 166) True,
      Text ''Overview'' 105 30 14 normal (0, 0, 0) True,
      Text ''Generated: 1/1/2025, 12:00:00 PM'' 105 38 10 normal (100, 100, 100) True]"
    by (simp add: after_title_def)
  have c: "activeContainer empty_page = Some []" by (simp add: empty_page_def)
  show ?thesis using r p c by (simp add: empty_page_export)
qed

text \<open>
  C4, amended. The panel export without a visible container alerts the user, draws
  nothing and saves no file. The panel export with a visible container of which it takes
  no chart shows no "nothing to export" message: it saves a file that holds the title
  block alone. The report that captured no section writes "No charts available to
  export." into its document and saves it all the same. Neither export alerts the user,
  unless \<^verbatim>\<open>pdf.save\<close> throws: then no file is saved and the one alert is that the
  export failed.
\<close>

theorem nothing_to_export:
  "alerts (exportCurrentPanel e df dt (pg\<lparr>activeContainer := None\<rparr>) disp) =
     [''No active panel found. Please make sure you are viewing a tab with charts.''] \<and>
   saved (exportCurrentPanel e df dt (pg\<lparr>activeContainer := None\<rparr>) disp) = None \<and>
   ops (exportCurrentPanel e df dt (pg\<lparr>activeContainer := None\<rparr>) disp) = [] \<and>
   (selected [] cs = [] \<longrightarrow>
      ops (exportCurrentPanel e df dt (pg\<lparr>activeContainer := Some cs\<rparr>) disp) =
        ops (title_block e df dt (tab_name pg) (panel_init disp)) \<and>
      saved (exportCurrentPanel e df dt (pg\<lparr>activeContainer := Some cs\<rparr>) disp) =
        (case saveThrows e of
           None \<Rightarrow> Some (''AI_Regulation_'' @ replace_spaces (tab_name pg) @ ''_'' @ isoToday e @ ''.pdf'')
         | Some err \<Rightarrow> None) \<and>
      alerts (exportCurrentPanel e df dt (pg\<lparr>activeContainer := Some cs\<rparr>) disp) =
        (case saveThrows e of
           None \<Rightarrow> []
         | Some err \<Rightarrow> [''Failed to export report. Please try again.''])) \<and>
   (capturedCount (snd (generatePDFReport e g title items meta)) = 0 \<longrightarrow>
      ''No charts available to export.'' \<in> set (texts (ops (snd (generatePDFReport e g title items meta)))) \<and>
      saved (snd (generatePDFReport e g title items meta)) =
        (case saveThrows e of None \<Rightarrow> Some (report_filename e title) | Some err \<Rightarrow> None) \<and>
      alerts (snd (generatePDFReport e g title items meta)) =
        (case saveThrows e of
           None \<Rightarrow> []
         | Some err \<Rightarrow> [''Failed to generate PDF report. Please try again.'']))"
proof -
  have none: "alerts (exportCurrentPanel e df dt (pg\<lparr>activeContainer := None\<rparr>) disp) =
     [''No active panel found. Please make sure you are viewing a tab with charts.''] \<and>
   saved (exportCurrentPanel e df dt (pg\<lparr>activeContainer := None\<rparr>) disp) = None \<and>
   ops (exportCurrentPanel e df dt (pg\<lparr>activeContainer := None\<rparr>) disp) = []"
    by (simp add: exportCurrentPanel_def panel_init_def Let_def)
  have cc: "capturedCount (snd (generatePDFReport e g title items meta)) =
        capturedCount (report_done e g title items meta)"
    by (simp add: generatePDFReport_done console_error_def split: option.splits)
  have nt: "capturedCount (report_done e g title items meta) = 0 \<Longrightarrow>
     ''No charts available to export.'' \<in> set (texts (ops (report_done e g title items meta)))"
    unfolding report_done_def
    by (simp add: no_charts_note_texts no_charts_note_fields del: texts.simps)
  have rs: "saved (snd (generatePDFReport e g title items meta)) =
        (case saveThrows e of None \<Rightarrow> Some (report_filename e title) | Some err \<Rightarrow> None)"
    by (simp add: generatePDFReport_done report_done_fields console_error_def split: option.splits)
  have ra: "alerts (snd (generatePDFReport e g title items meta)) =
        (case saveThrows e of
           None \<Rightarrow> []
         | Some err \<Rightarrow> [''Failed to generate PDF report. Please try again.''])"
    by (simp add: generatePDFReport_done report_done_fields console_error_def split: option.splits)
  show ?thesis
    using none cc nt rs ra exportCurrentPanel_no_chart[where cs=cs and e=e and df=df and dt=dt and pg=pg and disp=disp]
      exportCurrentPanel_some(3)[where cs=cs and e=e and df=df and dt=dt and pg=pg and disp=disp]
      exportCurrentPanel_alerts[where cs=cs and e=e and df=df and dt=dt and pg=pg and disp=disp]
    by (simp add: generatePDFReport_ops del: texts.simps)
qed

theorem nothing_to_export_witness:
  "selected [] [] = ([] :: chart list) \<and>
   ops (exportCurrentPanel a4 None None empty_page all_visible) =
     [Text ''AI Regulation Analytics Report'' 105 20 20 normal (20, 184, 166) True,
      Text ''Overview'' 105 30 14 normal (0, 0, 0) True,
      Text ''Generated: 1/1/2025, 12:00:00 PM'' 105 38 10 normal (100, 100, 100) True] \<and>
   saved (exportCurrentPanel a4 None None empty_page all_visible) =
     Some ''AI_Regulation_Overview_2025-01-01.pdf'' \<and>
   alerts (exportCurrentPanel a4 None None empty_page all_visible) = [] \<and>
   capturedCount (snd (generatePDFReport a4 no_elements ''My Report'' [section_a, section_b] None)) = 0 \<and>
   ''No charts available to export.'' \<in>
      set (texts (ops (snd (generatePDFReport a4 no_elements ''My Report'' [section_a, section_b] None)))) \<and>
   saved (snd (generatePDFReport a4 no_elements ''My Report'' [section_a, section_b] None)) =
      Some (report_filename a4 ''My Report'') \<and>
   alerts (snd (generatePDFReport a4 no_elements ''My Report'' [section_a, section_b] None)) = [] \<and>
   saved (exportCurrentPanel a4_save_fails None None empty_page all_visible) = None \<and>
   alerts (exportCurrentPanel a4_save_fails None None empty_page all_visible) =
     [''Failed to export report. Please try again.''] \<and>
   capturedCount (snd (generatePDFReport a4_save_fails no_elements ''My Report''
     [section_a, section_b] None)) = 0 \<and>
   saved (snd (generatePDFReport a4_save_fails no_elements ''My Report''
     [section_a, section_b] None)) = None \<and>
   alerts (snd (generatePDFReport a4_save_fails no_elements ''My Report''
     [section_a, section_b] None)) = [''Failed to generate PDF report. Please try again.'']"
proof -
  have h: "capturedCount (snd (generatePDFReport a4 no_elements ''My Report'' [section_a, section_b] None)) = 0"
    by (simp add: generatePDFReport_done report_done_fields a4_def section_capture_def
        no_elements_def)
  have h': "capturedCount (snd (generatePDFReport a4_save_fails no_elements ''My Report''
     [section_a, section_b] None)) = 0"
    by (simp add: generatePDFReport_done report_done_fields a4_save_fails_def a4_def
        section_capture_def no_elements_def console_error_def)
  have s: "saveThrows a4 = None" "isoToday a4 = ''2025-01-01''" by (simp_all add: a4_def)
  have s': "saveThrows a4_save_fails = Some ''blocked''" by (simp add: a4_save_fails_def)
  have p: "empty_page\<lparr>activeContainer := Some []\<rparr> = empty_page" by (simp add: empty_page_def)
  have r: "replace_spaces ''Overview'' = ''Overview''" by (simp add: is_space_def)
  have sel: "selected [] [] = ([] :: chart list)" by simp
  show ?thesis
    using nothing_to_export[where e=a4 and df=None and dt=None and pg=empty_page
        and disp=all_visible and cs="[]" and g=no_elements and title="''My Report''"
        and items="[section_a, section_b]" and meta=None]
      nothing_to_export[where e=a4_save_fails and df=None and dt=None and pg=empty_page
        and disp=all_visible and cs="[]" and g=no_elements and title="''My Report''"
        and items="[section_a, section_b]" and meta=None]
    unfolding p s s' tab_empty r title_step
    using h h' sel
    by (simp add: after_title_def del: texts.simps)
qed

subsection \<open>C5\<close>

text \<open>
  C5, as the code has it. When the request for the insight text fails, the string
  returned is not "analysis unavailable": it is another fixed string.
\<close>

theorem fetch_failure_string:
  "fst (generateAIInsights (RequestFails ''Network Error'') (panel_init all_visible)) =
     ''Unable to generate insights at this time.'' \<and>
   fst (generateAIInsights (RequestFails ''Network Error'') (panel_init all_visible)) \<noteq>
     ''analysis unavailable''"
  by (simp add: generateAIInsights_def)

text \<open>
  C5, amended: when the request fails, \<open>generateAIInsights\<close> logs the error and returns
  the fixed string "Unable to generate insights at this time."; the try block of a chart
  whose capture succeeded then completes, and the headings and images of all the charts
  the loop takes are in the document whatever the requests did.
\<close>

theorem fetch_failure_fallback:
  "fst (generateAIInsights (RequestFails err) s) = ''Unable to generate insights at this time.'' \<and>
   snd (generateAIInsights (RequestFails err) s) = console_error ''Failed to generate insights:'' err s \<and>
   completes (capture_block e (ch\<lparr>captureResult := Captured cv, insightsResponse := RequestFails err\<rparr>) s') \<and>
   section_headings (ops (exportCurrentPanel e df dt (pg\<lparr>activeContainer := Some cs\<rparr>) disp)) =
     map chart_title (selected [] cs) \<and>
   images (ops (exportCurrentPanel e df dt (pg\<lparr>activeContainer := Some cs\<rparr>) disp)) =
     captured_canvases (map captureResult (selected [] cs))"
proof -
  have "ops (panel_init disp) = []" by (simp add: panel_init_def)
  then show ?thesis
    using appends_init[OF charts_done_appends[of e disp df dt pg cs]]
    by (simp add: generateAIInsights_def capture_block_completes exportCurrentPanel_some)
qed

subsection \<open>C6\<close>

text \<open>
  C6, at a failing input: a chart with one visible export button whose capture throws.
  The claim says the button's display is restored by the end of the section; after the
  whole export it is still \<open>none\<close>, since the restoring loop comes after the capture in
  the \<^verbatim>\<open>try\<close> block and is skipped by the throw.
\<close>

theorem buttons_stay_hidden_after_failed_capture:
  "all_visible 9 = [] \<and>
   display (exportCurrentPanel a4 None None broken_page all_visible) 9 = ''none''"
  by (simp add: exportCurrentPanel_def Let_def broken_page_def broken_chart_def a4_def
      all_visible_def panel_init_def tab_name_def title_block_def process_chart_def
      chart_heading_def capture_block_def hide_export_buttons_def hide_button_def
      pdf_save_def prims chart_title_def or_else_def truthy_def trim_def is_space_def)

subsection \<open>C7\<close>

text \<open>
  C7, as the code has it. The claim that the page count is a function of the section
  list, the captured images and the insight text alone fails: the title block has one
  more line, and everything below it starts 5 mm lower, when the component has a date
  range. The same page with the same captures and the same insight texts gives one page
  without a date range and two with one.
\<close>

theorem date_range_changes_page_count:
  "page_count (ops (exportCurrentPanel a4 None None overview_page all_visible)) = 1 \<and>
   page_count (ops (exportCurrentPanel a4 (Some ''2024-01-01'') (Some ''2024-12-31'')
      overview_page all_visible)) = 2"
  by (simp add: overview_export_ops dated_export_ops after_sentiment_def dated_sentiment_def
      panel_init_def page_count_def)

text \<open>
  C7, amended: with the same date range props (and the page size and line wrapping, which
  the code fixes), two runs on the same charts with the same captures and the same
  insight replies draw the same kinds of blocks at the same places in the same order, on
  the same number of pages, whatever the clock, the tab's name, the styles of the page's
  buttons and the outcome of saving are.
\<close>

theorem layout_is_deterministic:
  "map geometry (ops (exportCurrentPanel
       (e\<lparr>localeNow := now', isoToday := today', saveThrows := save'\<rparr>) df dt
       (pg\<lparr>activeTabText := tab'\<rparr>) disp')) =
   map geometry (ops (exportCurrentPanel e df dt pg disp)) \<and>
   page_count (ops (exportCurrentPanel
       (e\<lparr>localeNow := now', isoToday := today', saveThrows := save'\<rparr>) df dt
       (pg\<lparr>activeTabText := tab'\<rparr>) disp')) =
   page_count (ops (exportCurrentPanel e df dt pg disp))"
proof -
  let ?e' = "e\<lparr>localeNow := now', isoToday := today', saveThrows := save'\<rparr>"
  let ?pg' = "pg\<lparr>activeTabText := tab'\<rparr>"
  have g: "map geometry (ops (exportCurrentPanel ?e' df dt ?pg' disp')) =
      map geometry (ops (exportCurrentPanel e df dt pg disp))"
    by (rule exportCurrentPanel_view) simp_all
  have "page_count (ops (exportCurrentPanel ?e' df dt ?pg' disp')) =
      page_count (map geometry (ops (exportCurrentPanel ?e' df dt ?pg' disp')))"
    by (simp only: page_count_geometry)
  also have "\<dots> = page_count (map geometry (ops (exportCurrentPanel e df dt pg disp)))"
    by (simp only: g)
  also have "\<dots> = page_count (ops (exportCurrentPanel e df dt pg disp))"
    by (simp only: page_count_geometry)
  finally show ?thesis using g by simp
qed

subsection \<open>C8\<close>





subsection \<open>C9\<close>

text \<open>
  C9: \<open>generatePDFReport\<close> always returns a result object. When \<^verbatim>\<open>pdf.save\<close> does not
  throw it is a success whose count is the number of images in the document, which are
  the canvases of the sections that were there, visible and captured; when it throws, the
  error is caught at the top and returned in a failure. Every error thrown on the way is
  in the console.
\<close>

theorem report_result:
  "fst (generatePDFReport e g title items meta) =
     (case saveThrows e of
        None \<Rightarrow> Success (length (images (ops (snd (generatePDFReport e g title items meta)))))
      | Some err \<Rightarrow> Failure err) \<and>
   images (ops (snd (generatePDFReport e g title items meta))) =
     captured_canvases (List.map_filter (section_capture g) items) \<and>
   logged_errors (console (snd (generatePDFReport e g title items meta))) =
     capture_errors (List.map_filter (section_capture g) items) @
       (case saveThrows e of None \<Rightarrow> [] | Some err \<Rightarrow> [err])"
proof -
  have "ops report_init = []" by (simp add: report_init_def)
  then have "images (ops (report_done e g title items meta)) =
      captured_canvases (List.map_filter (section_capture g) items)"
    using report_adds_init[OF report_done_adds[of e g title items meta]] by simp
  then show ?thesis
    by (simp add: generatePDFReport_ops)
       (simp add: generatePDFReport_done report_done_fields console_error_def split: option.splits)
qed

subsection \<open>C10\<close>

text \<open>
  C10: a section whose element is missing, or has a rectangle of zero width or zero
  height, leaves the document, the position and the count as they are, and the report of
  a list with such a section is the report of the list without it: the same result, the
  same drawing calls, the same file.
\<close>

theorem skipped_section_leaves_nothing:
  assumes "\<not> shown g item"
  shows "ops (report_section e g item s) = ops s \<and>
         yPosition (report_section e g item s) = yPosition s \<and>
         capturedCount (report_section e g item s) = capturedCount s \<and>
         fst (generatePDFReport e g title (pre @ item # post) meta) =
           fst (generatePDFReport e g title (pre @ post) meta) \<and>
         ops (snd (generatePDFReport e g title (pre @ item # post) meta)) =
           ops (snd (generatePDFReport e g title (pre @ post) meta)) \<and>
         saved (snd (generatePDFReport e g title (pre @ item # post) meta)) =
           saved (snd (generatePDFReport e g title (pre @ post) meta))"
proof -
  have step: "erase (report_section e g item s) = erase s"
    using assms by (rule erase_skipped)
  have s1: "ops (report_section e g item s) = ops s"
    using arg_cong[OF step, of ops] by (simp add: erase_fields)
  have s2: "yPosition (report_section e g item s) = yPosition s"
    using arg_cong[OF step, of yPosition] by (simp add: erase_fields)
  have s3: "capturedCount (report_section e g item s) = capturedCount s"
    using arg_cong[OF step, of capturedCount] by (simp add: erase_capturedCount)
  have whole: "erase (report_done e g title (pre @ item # post) meta) =
      erase (report_done e g title (pre @ post) meta)"
    using assms by (rule report_done_skipped)
  have w1: "ops (report_done e g title (pre @ item # post) meta) =
      ops (report_done e g title (pre @ post) meta)"
    using arg_cong[OF whole, of ops] by (simp add: erase_fields)
  have w2: "capturedCount (report_done e g title (pre @ item # post) meta) =
      capturedCount (report_done e g title (pre @ post) meta)"
    using arg_cong[OF whole, of capturedCount] by (simp add: erase_capturedCount)
  show ?thesis using s1 s2 s3 w1 w2
    by (simp add: generatePDFReport_done console_error_def report_done_fields split: option.splits)
qed

theorem skipped_section_leaves_nothing_witness:
  "\<not> shown one_element section_b \<and>
   ops (report_section a4 one_element section_b report_init) = ops report_init \<and>
   capturedCount (report_section a4 one_element section_b report_init) = capturedCount report_init \<and>
   fst (generatePDFReport a4 one_element ''My Report'' ([] @ section_b # [section_a]) None) =
     fst (generatePDFReport a4 one_element ''My Report'' ([] @ [section_a]) None) \<and>
   ops (snd (generatePDFReport a4 one_element ''My Report'' ([] @ section_b # [section_a]) None)) =
     ops (snd (generatePDFReport a4 one_element ''My Report'' ([] @ [section_a]) None))"
proof -
  have h: "\<not> shown one_element section_b"
    by (simp add: shown_def one_element_def section_b_def)
  show ?thesis
    using h skipped_section_leaves_nothing[OF h, of a4 report_init "''My Report''" "[]" "[section_a]" None]
    by simp
qed


end
